theory Spec2Isabelle
  imports Main "HOL-Library.Word"
begin

section \<open>JavaScript values\<close>

text \<open>
  A JavaScript number is a double. The model has the doubles that are whole numbers, as
  \<open>Fin n\<close>, and the three values that are no finite number; fractions are outside the
  model (the numbers here are millisecond timestamps and numbers of seconds).
  Arithmetic rounds as the doubles do: \<open>roundDouble x\<close> is the double nearest to the whole
  number \<open>x\<close>, ties going to the even significand of 53 bits, and an infinity from
  \<open>2 ^ 1024\<close> on. A \<open>Fin n\<close> whose \<open>n\<close> is not itself a double stands for the double
  nearest to it, as a numeric literal does (\<open>canonical\<close>). \<open>bitLength\<close> is the number of
  binary digits.
\<close>

datatype jsnum = Fin int | NaN | PosInfinity | NegInfinity

function bitLength :: "int \<Rightarrow> nat" where
  "bitLength n = (if n \<le> 0 then 0 else Suc (bitLength (n div 2)))"
  by pat_completeness auto
termination
  by (relation "measure nat") auto

declare bitLength.simps [simp del]

definition roundDouble :: "int \<Rightarrow> jsnum" where
  "roundDouble x =
     (if \<bar>x\<bar> \<le> 2 ^ 53 then Fin x
      else
        (let a = \<bar>x\<bar>;
             s = bitLength a - 53;
             q = a div 2 ^ s;
             r = a mod 2 ^ s;
             half = 2 ^ (s - 1);
             q' = (if r < half then q else if half < r then q + 1
                   else if even q then q else q + 1);
             m = q' * 2 ^ s
         in if 2 ^ 1024 \<le> m then (if x < 0 then NegInfinity else PosInfinity)
            else Fin (if x < 0 then - m else m)))"

fun canonical :: "jsnum \<Rightarrow> jsnum" where
  "canonical (Fin n) = roundDouble n"
| "canonical x = x"

fun signOf :: "jsnum \<Rightarrow> int" where
  "signOf (Fin n) = sgn n"
| "signOf PosInfinity = 1"
| "signOf NegInfinity = - 1"
| "signOf NaN = 0"

text \<open>The operators \<open>*\<close>, \<open>+\<close>, unary and binary \<open>-\<close>, and \<open>>=\<close> on numbers.\<close>

definition jsTimes :: "jsnum \<Rightarrow> jsnum \<Rightarrow> jsnum" where
  "jsTimes a b =
     (case (canonical a, canonical b) of
        (Fin x, Fin y) \<Rightarrow> roundDouble (x * y)
      | (x, y) \<Rightarrow>
          if x = NaN \<or> y = NaN \<or> signOf x * signOf y = 0 then NaN
          else if 0 < signOf x * signOf y then PosInfinity else NegInfinity)"

definition jsPlus :: "jsnum \<Rightarrow> jsnum \<Rightarrow> jsnum" where
  "jsPlus a b =
     (case (canonical a, canonical b) of
        (Fin x, Fin y) \<Rightarrow> roundDouble (x + y)
      | (x, y) \<Rightarrow>
          if x = NaN \<or> y = NaN then NaN
          else if x = PosInfinity \<and> y = NegInfinity then NaN
          else if x = NegInfinity \<and> y = PosInfinity then NaN
          else if x = PosInfinity \<or> y = PosInfinity then PosInfinity
          else NegInfinity)"

fun jsNegate :: "jsnum \<Rightarrow> jsnum" where
  "jsNegate (Fin n) = Fin (- n)"
| "jsNegate NaN = NaN"
| "jsNegate PosInfinity = NegInfinity"
| "jsNegate NegInfinity = PosInfinity"

definition jsMinus :: "jsnum \<Rightarrow> jsnum \<Rightarrow> jsnum" where
  "jsMinus a b = jsPlus a (jsNegate b)"

definition jsGreaterEq :: "jsnum \<Rightarrow> jsnum \<Rightarrow> bool" where
  "jsGreaterEq a b =
     (case (canonical a, canonical b) of
        (Fin x, Fin y) \<Rightarrow> y \<le> x
      | (x, y) \<Rightarrow>
          if x = NaN \<or> y = NaN then False
          else x = PosInfinity \<or> y = NegInfinity)"

fun truthyNumber :: "jsnum \<Rightarrow> bool" where
  "truthyNumber (Fin n) = (n \<noteq> 0)"
| "truthyNumber NaN = False"
| "truthyNumber PosInfinity = True"
| "truthyNumber NegInfinity = True"

text \<open>
  A value of type \<open>unknown\<close> as \<open>response.json()\<close> or a caller can give it: \<open>undefined\<close>,
  \<open>null\<close>, a boolean, a number, a string, an array, or an object, which is the list of
  its properties, each name once. \<open>property v k\<close> is \<open>v.k\<close> for the names the code
  reads, none of which an array or \<open>Object.prototype\<close> has. \<open>truthy\<close> is the test that
  \<open>if (v)\<close> and \<open>!v\<close> make, \<open>nullish\<close> the test of \<open>??\<close>, and \<open>typeofObject\<close>
  and \<open>typeofString\<close> are \<open>typeof v === 'object'\<close> and \<open>typeof v === 'string'\<close>.
\<close>

datatype json =
    JUndefined | JNull | JBool bool | JNum jsnum | JStr string
  | JArr "json list" | JObj "(string \<times> json) list"

fun truthy :: "json \<Rightarrow> bool" where
  "truthy JUndefined = False"
| "truthy JNull = False"
| "truthy (JBool b) = b"
| "truthy (JNum n) = truthyNumber n"
| "truthy (JStr s) = (s \<noteq> [])"
| "truthy (JArr xs) = True"
| "truthy (JObj kvs) = True"

fun nullish :: "json \<Rightarrow> bool" where
  "nullish JUndefined = True"
| "nullish JNull = True"
| "nullish v = False"

fun typeofObject :: "json \<Rightarrow> bool" where
  "typeofObject JNull = True"
| "typeofObject (JArr xs) = True"
| "typeofObject (JObj kvs) = True"
| "typeofObject v = False"

fun typeofString :: "json \<Rightarrow> bool" where
  "typeofString (JStr s) = True"
| "typeofString v = False"

fun property :: "json \<Rightarrow> string \<Rightarrow> json" where
  "property (JObj kvs) k = (case map_of kvs k of Some v \<Rightarrow> v | None \<Rightarrow> JUndefined)"
| "property v k = JUndefined"

text \<open>
  What a call can throw: an \<open>Error\<close> with its message, or another value. The
  conversions \<open>String(v)\<close> and \<open>ToNumber(v)\<close> are the language's. On a string and on a
  number they are the identity; on the other values they are the platform's and are a
  parameter, \<open>stringOf\<close> and \<open>numberOf\<close>, which give what the conversion throws (the
  \<open>TypeError\<close> for an object that has no primitive value) or its result.
\<close>

datatype thrown = ThrownError string | ThrownOther

record Conversions =
  stringOf :: "json \<Rightarrow> thrown + string"
  numberOf :: "json \<Rightarrow> thrown + jsnum"

definition jsToString :: "Conversions \<Rightarrow> json \<Rightarrow> thrown + string" where
  "jsToString conv v = (case v of JStr s \<Rightarrow> Inr s | _ \<Rightarrow> stringOf conv v)"

definition jsToNumber :: "Conversions \<Rightarrow> json \<Rightarrow> thrown + jsnum" where
  "jsToNumber conv v = (case v of JNum n \<Rightarrow> Inr n | _ \<Rightarrow> numberOf conv v)"

section \<open>Data model (core/types, core/errors, core/result)\<close>

text \<open>
  The records of \<open>core/types\<close>, with the types TypeScript declares. An optional field
  \<open>f?: T\<close> is a \<open>T option\<close>; \<open>None\<close> stands for \<open>undefined\<close> and for \<open>null\<close>, which the
  code never tells apart on these fields (it tests by truthiness, by \<open>??\<close>, or against
  both). \<open>Result<T, E>\<close> is the sum \<open>E + T\<close>: \<open>err e\<close> is \<open>Inl e\<close>, \<open>ok v\<close> is \<open>Inr v\<close>.
\<close>

record TokenSet =
  accessToken :: string
  tokenType :: string
  expiresAt :: "jsnum option"
  refreshToken :: "string option"
  scope :: "string option"

datatype challenge_method = S256

record PkceParams =
  codeVerifier :: string
  codeChallenge :: string
  codeChallengeMethod :: challenge_method

record OAuthConfig =
  clientId :: string
  clientSecret :: string
  authorizationUrl :: string
  tokenUrl :: string
  scopes :: "string list"
  pkce :: "bool option"
  redirectUri :: "string option"

text \<open>
  The two variants of the tagged union \<open>McpError\<close> that the auth subsystem produces.
  \<open>errTokenType\<close> is the field \<open>tokenType\<close> of \<open>TokenError\<close>.
\<close>

datatype McpError =
    OAuthError (message: string) (code: "string option") (statusCode: "int option")
  | TokenError (message: string) (errTokenType: "string option")

definition oauthError :: "string \<Rightarrow> string option \<Rightarrow> McpError" where
  "oauthError msg c = OAuthError msg c None"

definition tokenError :: "string \<Rightarrow> string option \<Rightarrow> McpError" where
  "tokenError msg tt = TokenError msg tt"

section \<open>auth/oauth: token responses and expiry\<close>

text \<open>
  \<open>parseTokenResponse\<close> takes a value of type \<open>unknown\<close> and reads its properties through
  unchecked type assertions, so the objects it returns hold whatever the payload held.
  \<open>ErrorObject\<close> is the object that \<open>oauthError(message, code)\<close> builds and \<open>TokenObject\<close>
  the token object, with the fields that are not checked as arbitrary values. The result
  is \<open>Inl\<close> of what the call throws, or \<open>Inr\<close> of the \<open>Result\<close> it returns. The second
  argument is the reading of \<open>Date.now()\<close>.
\<close>

record ErrorObject =
  errMessage :: json
  errCode :: json

record TokenObject =
  objAccessToken :: string
  objTokenType :: json
  objExpiresAt :: "jsnum option"
  objRefreshToken :: json
  objScope :: json

definition oauthErrorObject :: "json \<Rightarrow> json \<Rightarrow> ErrorObject" where
  "oauthErrorObject msg c = \<lparr> errMessage = msg, errCode = c \<rparr>"

fun stringValue :: "json \<Rightarrow> string" where
  "stringValue (JStr s) = s"
| "stringValue v = []"

definition parseTokenResponse ::
  "Conversions \<Rightarrow> int \<Rightarrow> json \<Rightarrow> thrown + (ErrorObject + TokenObject)" where
  "parseTokenResponse conv now response =
     (if \<not> truthy response \<or> \<not> typeofObject response then
        Inr (Inl (oauthErrorObject (JStr ''Invalid token response format'') JUndefined))
      else if truthy (property response ''error'') then
        (if nullish (property response ''error_description'') then
           (case jsToString conv (property response ''error'') of
              Inl t \<Rightarrow> Inl t
            | Inr s \<Rightarrow> Inr (Inl (oauthErrorObject (JStr s) (property response ''error''))))
         else
           Inr (Inl (oauthErrorObject (property response ''error_description'')
                       (property response ''error''))))
      else if \<not> truthy (property response ''access_token'') \<or>
              \<not> typeofString (property response ''access_token'') then
        Inr (Inl (oauthErrorObject (JStr ''Missing access_token in response'') JUndefined))
      else
        (case (if truthy (property response ''expires_in'')
               then (case jsToNumber conv (property response ''expires_in'') of
                       Inl t \<Rightarrow> Inl t
                     | Inr n \<Rightarrow> Inr (Some (jsPlus (Fin now) (jsTimes n (Fin 1000)))))
               else Inr None) of
           Inl t \<Rightarrow> Inl t
         | Inr expiry \<Rightarrow>
             Inr (Inr \<lparr> objAccessToken = stringValue (property response ''access_token''),
                        objTokenType = (if nullish (property response ''token_type'')
                                        then JStr ''Bearer''
                                        else property response ''token_type''),
                        objExpiresAt = expiry,
                        objRefreshToken = property response ''refresh_token'',
                        objScope = property response ''scope'' \<rparr>)))"

text \<open>
  The answer of a token endpoint that keeps to the documented format
  \<open>{access_token, token_type?, expires_in?, refresh_token?, scope?}\<close> or
  \<open>{error, error_description?}\<close>: a primitive, or an object whose fields have the types
  the code asserts; \<open>access_token\<close> stays an arbitrary value, since the code checks it.
  \<open>resp_scope\<close> is the property \<open>scope\<close>. \<open>responseJson\<close> is such an answer as a value,
  and \<open>parseTypedResponse\<close> is \<open>parseTokenResponse\<close> on such answers, with typed results:
  it never throws there and its result is a \<open>Result<TokenSet, OAuthError>\<close> (lemma
  \<open>parseTokenResponse_typed\<close> below). \<open>errorObject\<close> and \<open>tokenObject\<close> are a typed
  error and token as objects.
\<close>

datatype 'o js_value =
    JsUndefined | JsNull | JsBoolean bool | JsNumber int | JsString string | JsObject 'o

record TokenResponseData =
  error :: "string option"
  error_description :: "string option"
  access_token :: "unit js_value"
  token_type :: "string option"
  expires_in :: "int option"
  refresh_token :: "string option"
  resp_scope :: "string option"

fun optionalString :: "string option \<Rightarrow> json" where
  "optionalString None = JUndefined"
| "optionalString (Some s) = JStr s"

fun valueJson :: "unit js_value \<Rightarrow> json" where
  "valueJson JsUndefined = JUndefined"
| "valueJson JsNull = JNull"
| "valueJson (JsBoolean b) = JBool b"
| "valueJson (JsNumber n) = JNum (Fin n)"
| "valueJson (JsString s) = JStr s"
| "valueJson (JsObject u) = JObj []"

fun responseJson :: "TokenResponseData js_value \<Rightarrow> json" where
  "responseJson JsUndefined = JUndefined"
| "responseJson JsNull = JNull"
| "responseJson (JsBoolean b) = JBool b"
| "responseJson (JsNumber n) = JNum (Fin n)"
| "responseJson (JsString s) = JStr s"
| "responseJson (JsObject data) =
     JObj [(''error'', optionalString (error data)),
           (''error_description'', optionalString (error_description data)),
           (''access_token'', valueJson (access_token data)),
           (''token_type'', optionalString (token_type data)),
           (''expires_in'', (case expires_in data of None \<Rightarrow> JUndefined | Some n \<Rightarrow> JNum (Fin n))),
           (''refresh_token'', optionalString (refresh_token data)),
           (''scope'', optionalString (resp_scope data))]"

fun errorObject :: "McpError \<Rightarrow> ErrorObject" where
  "errorObject (OAuthError m c sc) = \<lparr> errMessage = JStr m, errCode = optionalString c \<rparr>"
| "errorObject (TokenError m tt) = \<lparr> errMessage = JStr m, errCode = JUndefined \<rparr>"

definition tokenObject :: "TokenSet \<Rightarrow> TokenObject" where
  "tokenObject t =
     \<lparr> objAccessToken = accessToken t, objTokenType = JStr (tokenType t),
       objExpiresAt = expiresAt t, objRefreshToken = optionalString (refreshToken t),
       objScope = optionalString (scope t) \<rparr>"

fun truthyString :: "string option \<Rightarrow> bool" where
  "truthyString None = False"
| "truthyString (Some s) = (s \<noteq> [])"

fun jsString :: "string option \<Rightarrow> string" where
  "jsString None = ''undefined''"
| "jsString (Some s) = s"

definition parseTypedResponse :: "int \<Rightarrow> TokenResponseData js_value \<Rightarrow> McpError + TokenSet" where
  "parseTypedResponse now response =
     (case response of
        JsObject data \<Rightarrow>
          if truthyString (error data) then
            Inl (oauthError
                  (case error_description data of Some d \<Rightarrow> d | None \<Rightarrow> jsString (error data))
                  (error data))
          else
            (case access_token data of
               JsString a \<Rightarrow>
                 if a = [] then Inl (oauthError ''Missing access_token in response'' None)
                 else
                   Inr \<lparr> accessToken = a,
                         tokenType = (case token_type data of Some t \<Rightarrow> t | None \<Rightarrow> ''Bearer''),
                         expiresAt = (case expires_in data of
                                        Some n \<Rightarrow> if n \<noteq> 0
                                                  then Some (jsPlus (Fin now) (jsTimes (Fin n) (Fin 1000)))
                                                  else None
                                      | None \<Rightarrow> None),
                         refreshToken = refresh_token data,
                         scope = resp_scope data \<rparr>
             | _ \<Rightarrow> Inl (oauthError ''Missing access_token in response'' None))
      | _ \<Rightarrow> Inl (oauthError ''Invalid token response format'' None))"

text \<open>
  \<open>isTokenExpired\<close>: \<open>now\<close> is \<open>Date.now()\<close>; the optional argument \<open>bufferMs\<close> takes
  its default \<open>30 * 1000\<close> when it is not passed. \<open>!token.expiresAt\<close> holds for a missing
  field, for the number 0 and for \<open>NaN\<close>.
\<close>

definition isTokenExpired :: "int \<Rightarrow> TokenSet \<Rightarrow> int option \<Rightarrow> bool" where
  "isTokenExpired now token bufferMs =
     (let b = (case bufferMs of None \<Rightarrow> 30 * 1000 | Some b \<Rightarrow> b) in
      case expiresAt token of
        None \<Rightarrow> False
      | Some e \<Rightarrow> if \<not> truthyNumber e then False
                  else jsGreaterEq (Fin now) (jsMinus e (Fin b)))"

definition canRefreshToken :: "TokenSet \<Rightarrow> bool" where
  "canRefreshToken token = (refreshToken token \<noteq> None)"

text \<open>A \<open>Record<string, string>\<close> literal is the list of its entries, in insertion order.\<close>

definition buildRefreshTokenBody :: "OAuthConfig \<Rightarrow> string \<Rightarrow> (string \<times> string) list" where
  "buildRefreshTokenBody cfg rt =
     [(''grant_type'', ''refresh_token''),
      (''refresh_token'', rt),
      (''client_id'', clientId cfg),
      (''client_secret'', clientSecret cfg)]"

section \<open>auth/tokenManager\<close>

text \<open>
  The effects of the token manager are explicit. \<open>World\<close> holds what the calls can change:
  \<open>store\<close> is the \<open>Map\<close> behind the storage capability of \<open>createMemoryStorage\<close>, and
  \<open>sent\<close> is the list of requests passed to \<open>httpFetch\<close> so far, oldest first. The
  manager state keeps the configuration and the fetch function: \<open>httpFetch\<close> gives, for
  a request, either the value thrown by \<open>fetch\<close> or by \<open>response.json()\<close>, or the parsed
  JSON body, which is taken to keep to the documented format; on such a body the call of
  \<open>parseTokenResponse\<close> is \<open>parseTypedResponse\<close>. \<open>httpMethod\<close> is the option \<open>method\<close> of
  a request, and its \<open>body\<close> is the list of form fields that \<open>URLSearchParams\<close>
  serialises. The memory storage never throws, so \<open>setToken\<close> and \<open>deleteToken\<close> always
  succeed.
\<close>

record FetchRequest =
  url :: string
  httpMethod :: string
  headers :: "(string \<times> string) list"
  body :: "(string \<times> string) list"

record TokenManagerState =
  config :: OAuthConfig
  httpFetch :: "FetchRequest \<Rightarrow> thrown + TokenResponseData js_value"

record World =
  store :: "string \<rightharpoonup> TokenSet"
  sent :: "FetchRequest list"

definition getToken :: "TokenManagerState \<Rightarrow> string \<Rightarrow> World \<Rightarrow> (McpError + TokenSet) \<times> World" where
  "getToken st key w =
     (case store w key of
        None \<Rightarrow> (Inl (tokenError ''Token not found'' (Some key)), w)
      | Some token \<Rightarrow> (Inr token, w))"

definition setToken :: "TokenManagerState \<Rightarrow> string \<Rightarrow> TokenSet \<Rightarrow> World \<Rightarrow> (McpError + unit) \<times> World" where
  "setToken st key token w = (Inr (), w\<lparr>store := (store w)(key \<mapsto> token)\<rparr>)"

definition deleteToken :: "TokenManagerState \<Rightarrow> string \<Rightarrow> World \<Rightarrow> (McpError + unit) \<times> World" where
  "deleteToken st key w = (Inr (), w\<lparr>store := (store w)(key := None)\<rparr>)"

text \<open>\<open>refreshTokenRequest\<close>; \<open>now\<close> is the reading of \<open>Date.now()\<close> when the response is parsed.\<close>

definition refreshTokenRequest ::
  "int \<Rightarrow> TokenManagerState \<Rightarrow> string \<Rightarrow> World \<Rightarrow> (McpError + TokenSet) \<times> World" where
  "refreshTokenRequest now st rt w =
     (let req = \<lparr> url = tokenUrl (config st),
                  httpMethod = ''POST'',
                  headers = [(''Content-Type'', ''application/x-www-form-urlencoded'')],
                  body = buildRefreshTokenBody (config st) rt \<rparr>;
          w' = w\<lparr>sent := sent w @ [req]\<rparr>
      in case httpFetch st req of
           Inl e \<Rightarrow>
             (Inl (tokenError (case e of ThrownError m \<Rightarrow> m
                                       | ThrownOther \<Rightarrow> ''Token refresh request failed'') None), w')
         | Inr v \<Rightarrow>
             (case parseTypedResponse now v of
                Inl pe \<Rightarrow> (Inl (tokenError (message pe) None), w')
              | Inr token \<Rightarrow> (Inr token, w')))"

text \<open>
  \<open>getValidToken\<close>: \<open>now\<close> is \<open>Date.now()\<close> at the expiry test, \<open>now'\<close> at the parse of the
  refresh response. \<open>isTokenExpired\<close> is called without a buffer argument.
\<close>

definition getValidToken ::
  "int \<Rightarrow> int \<Rightarrow> TokenManagerState \<Rightarrow> string \<Rightarrow> World \<Rightarrow> (McpError + TokenSet) \<times> World" where
  "getValidToken now now' st key w =
     (case getToken st key w of
        (Inl e, w1) \<Rightarrow> (Inl e, w1)
      | (Inr token, w1) \<Rightarrow>
          if \<not> isTokenExpired now token None then (Inr token, w1)
          else if \<not> canRefreshToken token then
            (Inl (tokenError ''Token expired and no refresh token available'' None), w1)
          else
            (case refreshTokenRequest now' st (case refreshToken token of Some r \<Rightarrow> r | None \<Rightarrow> []) w1 of
               (Inl e, w2) \<Rightarrow> (Inl e, w2)
             | (Inr newToken, w2) \<Rightarrow>
                 (case setToken st key newToken w2 of (_, w3) \<Rightarrow> (Inr newToken, w3))))"

definition mergeTokens :: "TokenSet \<Rightarrow> TokenSet \<Rightarrow> TokenSet" where
  "mergeTokens existingToken newToken =
     newToken\<lparr>refreshToken := (case refreshToken newToken of
                                   Some r \<Rightarrow> Some r
                                 | None \<Rightarrow> refreshToken existingToken)\<rparr>"

section \<open>auth/pkce\<close>

text \<open>
  \<open>Buffer.toString('base64')\<close> is the standard base64 encoding (RFC 4648) of the bytes:
  three bytes give four characters of the alphabet, and a last group of one or two bytes
  is padded with \<open>=\<close>.
\<close>

definition base64Alphabet :: string where
  "base64Alphabet = ''ABCDEFGHIJKLMNOPQRSTUVWXYZabcdefghijklmnopqrstuvwxyz0123456789+/''"

definition b64char :: "nat \<Rightarrow> char" where
  "b64char n = base64Alphabet ! n"

fun toBase64 :: "8 word list \<Rightarrow> string" where
  "toBase64 [] = []"
| "toBase64 [a] =
     [b64char (unat a div 4), b64char ((unat a mod 4) * 16), CHR ''='', CHR ''='']"
| "toBase64 [a, b] =
     [b64char (unat a div 4), b64char ((unat a mod 4) * 16 + unat b div 16),
      b64char ((unat b mod 16) * 4), CHR ''='']"
| "toBase64 (a # b # c # bs) =
     [b64char (unat a div 4), b64char ((unat a mod 4) * 16 + unat b div 16),
      b64char ((unat b mod 16) * 4 + unat c div 64), b64char (unat c mod 64)] @ toBase64 bs"

text \<open>\<open>s.replace(/c/g, d)\<close> for a single character \<open>c\<close>, and \<open>s.replace(/c/g, '')\<close>.\<close>

definition replaceChar :: "char \<Rightarrow> char \<Rightarrow> string \<Rightarrow> string" where
  "replaceChar c d s = map (\<lambda>x. if x = c then d else x) s"

definition removeChar :: "char \<Rightarrow> string \<Rightarrow> string" where
  "removeChar c s = filter (\<lambda>x. x \<noteq> c) s"

definition base64UrlEncode :: "8 word list \<Rightarrow> string" where
  "base64UrlEncode buffer =
     removeChar (CHR ''='')
       (replaceChar (CHR ''/'') (CHR ''_'')
         (replaceChar (CHR ''+'') (CHR ''-'') (toBase64 buffer)))"

text \<open>
  \<open>computeCodeChallenge\<close>. The hash \<open>createHash('sha256').update(verifier).digest()\<close> is
  Node's; it is the parameter \<open>sha256\<close>, of which the theorems use only that a digest has
  32 bytes.
\<close>

definition computeCodeChallenge :: "(string \<Rightarrow> 8 word list) \<Rightarrow> string \<Rightarrow> string" where
  "computeCodeChallenge sha256 verifier = base64UrlEncode (sha256 verifier)"

fun methodString :: "challenge_method \<Rightarrow> string" where
  "methodString S256 = ''S256''"

definition pkceToQueryParams :: "PkceParams \<Rightarrow> (string \<times> string) list" where
  "pkceToQueryParams params =
     [(''code_challenge'', codeChallenge params),
      (''code_challenge_method'', methodString (codeChallengeMethod params))]"

definition pkceToTokenParams :: "string \<Rightarrow> (string \<times> string) list" where
  "pkceToTokenParams verifier = [(''code_verifier'', verifier)]"

text \<open>
  \<open>isValidCodeChallenge\<close>: 43 characters that match \<open>/^[A-Za-z0-9\-_]+$/\<close>.
\<close>

definition base64UrlAlphabet :: string where
  "base64UrlAlphabet = ''ABCDEFGHIJKLMNOPQRSTUVWXYZabcdefghijklmnopqrstuvwxyz0123456789-_''"

definition isValidCodeChallenge :: "string \<Rightarrow> bool" where
  "isValidCodeChallenge challenge =
     (if length challenge \<noteq> 43 then False
      else challenge \<noteq> [] \<and> list_all (\<lambda>c. c \<in> set base64UrlAlphabet) challenge)"

section \<open>auth/oauth: the authorization request and the code exchange\<close>

text \<open>
  \<open>AuthorizationState\<close>; \<open>statePkce\<close> and \<open>stateRedirectUri\<close> are its fields \<open>pkce\<close> and
  \<open>redirectUri\<close>.
\<close>

record AuthorizationState =
  state :: string
  statePkce :: PkceParams
  stateRedirectUri :: string
  createdAt :: int

text \<open>
  A parsed \<open>URL\<close> object: \<open>searchParams\<close> is the list of name-value pairs of its query, in
  order, and \<open>base\<close> is the rest of the URL. The parser \<open>new URL(s)\<close> is the platform's and
  is a parameter of \<open>buildAuthorizationUrl\<close>; it gives \<open>None\<close> where the constructor
  throws. \<open>searchParamsSet\<close> is \<open>URLSearchParams.set\<close>: the first pair of that name gets
  the value and the other pairs of that name are removed, and a name that does not occur
  is appended.
\<close>

record URL =
  base :: string
  searchParams :: "(string \<times> string) list"

fun searchParamsSet :: "string \<Rightarrow> string \<Rightarrow> (string \<times> string) list \<Rightarrow> (string \<times> string) list" where
  "searchParamsSet k v [] = [(k, v)]"
| "searchParamsSet k v (p # ps) =
     (if fst p = k then (k, v) # filter (\<lambda>q. fst q \<noteq> k) ps
      else p # searchParamsSet k v ps)"

fun join :: "string \<Rightarrow> string list \<Rightarrow> string" where
  "join sep [] = []"
| "join sep [x] = x"
| "join sep (x # y # ys) = x @ sep @ join sep (y # ys)"

text \<open>
  \<open>buildAuthorizationUrl\<close>. The source returns \<open>url.toString()\<close>, the serialisation of the
  URL built here; the model returns the URL itself, or \<open>None\<close> when \<open>new URL\<close> throws.
\<close>

definition buildAuthorizationUrl ::
  "(string \<Rightarrow> URL option) \<Rightarrow> OAuthConfig \<Rightarrow> AuthorizationState \<Rightarrow> URL option" where
  "buildAuthorizationUrl newURL cfg st =
     (case newURL (authorizationUrl cfg) of
        None \<Rightarrow> None
      | Some u \<Rightarrow>
          (let p1 = searchParamsSet ''response_type'' ''code'' (searchParams u);
               p2 = searchParamsSet ''client_id'' (clientId cfg) p1;
               p3 = searchParamsSet ''redirect_uri'' (stateRedirectUri st) p2;
               p4 = searchParamsSet ''state'' (state st) p3;
               p5 = (if length (scopes cfg) > 0
                     then searchParamsSet ''scope'' (join '' '' (scopes cfg)) p4
                     else p4);
               p6 = (if pkce cfg \<noteq> Some False
                     then foldl (\<lambda>ps (key, v). searchParamsSet key v ps) p5
                            (pkceToQueryParams (statePkce st))
                     else p5)
           in Some (u\<lparr>searchParams := p6\<rparr>)))"

text \<open>
  Assignment to a property of an object: an existing property keeps its place and gets
  the value, a new one is added last. \<open>objectAssign\<close> is \<open>Object.assign\<close>.
\<close>

fun setProperty :: "string \<Rightarrow> string \<Rightarrow> (string \<times> string) list \<Rightarrow> (string \<times> string) list" where
  "setProperty k v [] = [(k, v)]"
| "setProperty k v (p # ps) = (if fst p = k then (k, v) # ps else p # setProperty k v ps)"

definition objectAssign :: "(string \<times> string) list \<Rightarrow> (string \<times> string) list \<Rightarrow> (string \<times> string) list" where
  "objectAssign target source = foldl (\<lambda>obj (key, v). setProperty key v obj) target source"

definition buildTokenRequestBody ::
  "OAuthConfig \<Rightarrow> string \<Rightarrow> AuthorizationState \<Rightarrow> (string \<times> string) list" where
  "buildTokenRequestBody cfg authCode st =
     (let body0 = [(''grant_type'', ''authorization_code''),
                   (''code'', authCode),
                   (''redirect_uri'', stateRedirectUri st),
                   (''client_id'', clientId cfg)];
          body1 = (if clientSecret cfg \<noteq> []
                   then setProperty ''client_secret'' (clientSecret cfg) body0
                   else body0);
          body2 = (if pkce cfg \<noteq> Some False
                   then objectAssign body1 (pkceToTokenParams (codeVerifier (statePkce st)))
                   else body1)
      in body2)"

section \<open>auth/middleware\<close>

text \<open>
  \<open>jsSplit c s\<close> is \<open>s.split(c)\<close> for a one-character separator: the pieces between the
  separators, empty pieces included, so the result is never empty. \<open>toLowerCase\<close> maps the
  letters A to Z; header values are single-byte strings, and no other character has a
  lower case among the letters of \<open>bearer\<close>.
\<close>

fun jsSplit :: "char \<Rightarrow> string \<Rightarrow> string list" where
  "jsSplit c [] = [[]]"
| "jsSplit c (x # xs) =
     (if x = c then [] # jsSplit c xs
      else (case jsSplit c xs of
              p # ps \<Rightarrow> (x # p) # ps
            | [] \<Rightarrow> [[x]]))"

definition lowerChar :: "char \<Rightarrow> char" where
  "lowerChar c =
     (case map_of (zip ''ABCDEFGHIJKLMNOPQRSTUVWXYZ'' ''abcdefghijklmnopqrstuvwxyz'') c of
        Some l \<Rightarrow> l
      | None \<Rightarrow> c)"

definition toLowerCase :: "string \<Rightarrow> string" where
  "toLowerCase s = map lowerChar s"

definition extractBearerToken :: "string option \<Rightarrow> string option" where
  "extractBearerToken authHeader =
     (if \<not> truthyString authHeader then None
      else (case jsSplit (CHR '' '') (jsString authHeader) of
              [scheme, tok] \<Rightarrow> if toLowerCase scheme \<noteq> ''bearer'' then None else Some tok
            | _ \<Rightarrow> None))"

text \<open>
  The parts of an Express request the middleware reads: the \<open>Authorization\<close> header, the
  query parameter \<open>access_token\<close> (a string, or the array or object the query parser makes
  of repeated or bracketed parameters), and the \<open>token\<close> the middleware attaches.
\<close>

datatype query_value = QueryString string | QueryOther

record Request =
  authorization :: "string option"
  query_access_token :: "query_value option"
  token :: "TokenSet option"

definition extractToken :: "Request \<Rightarrow> string option" where
  "extractToken req =
     (let headerToken = extractBearerToken (authorization req) in
      if truthyString headerToken then headerToken
      else (case query_access_token req of
              Some (QueryString queryToken) \<Rightarrow> Some queryToken
            | _ \<Rightarrow> None))"

text \<open>
  What a middleware does with a request: it sends a response with a status and a JSON
  body, or it calls \<open>next()\<close> with the request as it then is.
\<close>

datatype Outcome = Responded nat "(string \<times> string) list" | Next Request

definition createSimpleValidator :: "string \<Rightarrow> McpError + TokenSet" where
  "createSimpleValidator tok =
     (if tok = [] \<or> length tok < 10 then Inl (oauthError ''Invalid token format'' None)
      else Inr \<lparr> accessToken = tok, tokenType = ''Bearer'', expiresAt = None,
                 refreshToken = None, scope = None \<rparr>)"

definition createAuthMiddleware :: "(string \<Rightarrow> McpError + TokenSet) \<Rightarrow> Request \<Rightarrow> Outcome" where
  "createAuthMiddleware validator req =
     (let tok = extractToken req in
      if \<not> truthyString tok then
        Responded 401 [(''error'', ''unauthorized''),
                       (''error_description'', ''Missing authentication token'')]
      else
        (case validator (jsString tok) of
           Inl e \<Rightarrow> Responded 401 [(''error'', ''invalid_token''),
                                   (''error_description'', message e)]
         | Inr validated \<Rightarrow> Next (req\<lparr>token := Some validated\<rparr>)))"

definition getTokenScopes :: "TokenSet \<Rightarrow> string list" where
  "getTokenScopes tok =
     (if truthyString (scope tok)
      then filter (\<lambda>s. length s > 0) (jsSplit (CHR '' '') (jsString (scope tok)))
      else [])"

definition hasScope :: "TokenSet \<Rightarrow> string \<Rightarrow> bool" where
  "hasScope tok sc = (sc \<in> set (getTokenScopes tok))"

definition requireScopes :: "string list \<Rightarrow> Request \<Rightarrow> Outcome" where
  "requireScopes requiredScopes req =
     (case token req of
        None \<Rightarrow> Responded 401 [(''error'', ''unauthorized''),
                               (''error_description'', ''Authentication required'')]
      | Some tok \<Rightarrow>
          (let missingScopes = filter (\<lambda>sc. \<not> hasScope tok sc) requiredScopes in
           if length missingScopes > 0 then
             Responded 403 [(''error'', ''insufficient_scope''),
                            (''error_description'',
                             ''Missing required scopes: '' @ join '', '' missingScopes)]
           else Next req))"

section \<open>Notions used in the statements and proofs\<close>

text \<open>
  \<open>param u k\<close> is \<open>u.searchParams.get(k)\<close>, the value of the first pair named \<open>k\<close>, and
  \<open>occurrences k ps\<close> counts the pairs named \<open>k\<close>. \<open>urlChar\<close> is what the two replacements
  of \<open>base64UrlEncode\<close> make of one character, \<open>encodeChars\<close> is the three replacements
  on a string, and \<open>urlSafe\<close> holds of the characters of the base64url alphabet.
  \<open>queryFallback req\<close> is what \<open>extractToken\<close> takes from the query when the header gives
  no token: the parameter \<open>access_token\<close> if it is a string.
\<close>

definition param :: "URL \<Rightarrow> string \<Rightarrow> string option" where
  "param u k = map_of (searchParams u) k"

definition occurrences :: "string \<Rightarrow> (string \<times> string) list \<Rightarrow> nat" where
  "occurrences k ps = length (filter (\<lambda>q. fst q = k) ps)"

definition urlSafe :: "char \<Rightarrow> bool" where
  "urlSafe c =
     (c \<noteq> CHR ''='' \<and> c \<noteq> CHR ''+'' \<and> c \<noteq> CHR ''/'' \<and> c \<in> set base64UrlAlphabet)"

definition urlChar :: "char \<Rightarrow> char" where
  "urlChar c = (if c = CHR ''+'' then CHR ''-'' else if c = CHR ''/'' then CHR ''_'' else c)"

definition encodeChars :: "string \<Rightarrow> string" where
  "encodeChars cs =
     removeChar (CHR ''='')
       (replaceChar (CHR ''/'') (CHR ''_'') (replaceChar (CHR ''+'') (CHR ''-'') cs))"

text \<open>
  The expiry rule in the specification's words: a token with no \<open>expiresAt\<close> never
  expires; otherwise it is considered expired once \<open>now >= expiresAt - bufferMs\<close>, with a
  default buffer of 30 seconds. It is compared with \<open>isTokenExpired\<close> below.
\<close>

definition specExpiryRule :: "int \<Rightarrow> TokenSet \<Rightarrow> int option \<Rightarrow> bool" where
  "specExpiryRule now tok bufferMs =
     (case expiresAt tok of
        None \<Rightarrow> False
      | Some e \<Rightarrow>
          jsGreaterEq (Fin now)
            (jsMinus e (Fin (case bufferMs of None \<Rightarrow> 30000 | Some b \<Rightarrow> b))))"

definition queryFallback :: "Request \<Rightarrow> string option" where
  "queryFallback req =
     (case query_access_token req of Some (QueryString q) \<Rightarrow> Some q | _ \<Rightarrow> None)"

section \<open>Example values\<close>

text \<open>
  The values of the specification's scenarios: a token under the key \<open>u1\<close> that carries
  the refresh token \<open>r1\<close>, and a token endpoint that answers a refresh with
  \<open>{access_token: "xyz", expires_in: 3600}\<close>, without a \<open>refresh_token\<close>; a second
  endpoint whose request fails. The PKCE pair is the one of RFC 7636, appendix B, and
  \<open>exampleSha256\<close> is SHA-256 at that verifier (the digest listed there).
  \<open>exampleNewURL\<close> is \<open>new URL\<close> on the two URLs the examples use. \<open>epochToken\<close> is a
  token whose \<open>expiresAt\<close> is 0, the first millisecond of 1970. \<open>exampleConversions\<close>
  has the conversions of the values the examples use: \<open>String\<close> of \<open>undefined\<close>, of
  \<open>null\<close> and of a boolean is its name, \<open>String\<close> of an object parsed from JSON is
  "[object Object]" unless it has a property \<open>toString\<close>, which is then not a function,
  so that the object has no primitive value and the conversion throws a \<open>TypeError\<close>;
  \<open>ToNumber\<close> of \<open>null\<close> is 0 and of a boolean 0 or 1. No example converts a string
  to a number, or an array or a number to a string.
\<close>

definition exampleConfig :: OAuthConfig where
  "exampleConfig =
     \<lparr> clientId = ''c1'', clientSecret = ''s3cret'',
       authorizationUrl = ''https://auth/authorize'', tokenUrl = ''https://auth/token'',
       scopes = [''read''], pkce = Some True, redirectUri = None \<rparr>"

definition exampleRefreshResponse :: TokenResponseData where
  "exampleRefreshResponse =
     \<lparr> error = None, error_description = None, access_token = JsString ''xyz'',
       token_type = None, expires_in = Some 3600, refresh_token = None, resp_scope = None \<rparr>"

definition emptyResponse :: TokenResponseData where
  "emptyResponse =
     \<lparr> error = None, error_description = None, access_token = JsUndefined,
       token_type = None, expires_in = None, refresh_token = None, resp_scope = None \<rparr>"

definition exampleManager :: TokenManagerState where
  "exampleManager =
     \<lparr> config = exampleConfig, httpFetch = (\<lambda>_. Inr (JsObject exampleRefreshResponse)) \<rparr>"

definition failingManager :: TokenManagerState where
  "failingManager =
     \<lparr> config = exampleConfig, httpFetch = (\<lambda>_. Inl (ThrownError ''connect ECONNREFUSED'')) \<rparr>"

definition exampleStoredToken :: TokenSet where
  "exampleStoredToken =
     \<lparr> accessToken = ''abc'', tokenType = ''Bearer'', expiresAt = Some (Fin 100000),
       refreshToken = Some ''r1'', scope = None \<rparr>"

definition epochToken :: TokenSet where
  "epochToken =
     \<lparr> accessToken = ''abc'', tokenType = ''Bearer'', expiresAt = Some (Fin 0),
       refreshToken = None, scope = None \<rparr>"

definition exampleWorld :: World where
  "exampleWorld = \<lparr> store = [''u1'' \<mapsto> exampleStoredToken], sent = [] \<rparr>"

definition examplePkce :: PkceParams where
  "examplePkce =
     \<lparr> codeVerifier = ''dBjftJeZ4CVP-mB92K27uhbUJU1p1r_wW1gFWFOEjXk'',
       codeChallenge = ''E9Melhoa2OwvFrEMTJguCHaoeK1t8URWbuGJSstw-cM'',
       codeChallengeMethod = S256 \<rparr>"

definition exampleState :: AuthorizationState where
  "exampleState =
     \<lparr> state = ''af0ifjsldkj'', statePkce = examplePkce,
       stateRedirectUri = ''https://app/cb'', createdAt = 100000 \<rparr>"

definition exampleNewURL :: "string \<Rightarrow> URL option" where
  "exampleNewURL s =
     (if s = ''https://auth/authorize''
      then Some \<lparr> base = ''https://auth/authorize'', searchParams = [] \<rparr>
      else if s = ''https://auth/authorize?scope=admin&code_challenge=abc''
      then Some \<lparr> base = ''https://auth/authorize'',
                   searchParams = [(''scope'', ''admin''), (''code_challenge'', ''abc'')] \<rparr>
      else None)"

definition exampleSha256 :: "string \<Rightarrow> 8 word list" where
  "exampleSha256 verifier =
     (if verifier = ''dBjftJeZ4CVP-mB92K27uhbUJU1p1r_wW1gFWFOEjXk''
      then [19, 211, 30, 150, 26, 26, 216, 236, 47, 22, 177, 12, 76, 152, 46, 8,
            118, 168, 120, 173, 109, 241, 68, 86, 110, 225, 137, 74, 203, 112, 249, 195]
      else replicate 32 0)"

definition exampleConversions :: Conversions where
  "exampleConversions =
     \<lparr> stringOf = (\<lambda>v. case v of
                         JUndefined \<Rightarrow> Inr ''undefined''
                       | JNull \<Rightarrow> Inr ''null''
                       | JBool b \<Rightarrow> Inr (if b then ''true'' else ''false'')
                       | JObj kvs \<Rightarrow>
                           if map_of kvs ''toString'' = None then Inr ''[object Object]''
                           else Inl (ThrownError ''Cannot convert object to primitive value'')
                       | _ \<Rightarrow> Inr []),
       numberOf = (\<lambda>v. case v of
                         JNull \<Rightarrow> Inr (Fin 0)
                       | JBool b \<Rightarrow> Inr (Fin (if b then 1 else 0))
                       | _ \<Rightarrow> Inr NaN) \<rparr>"

definition exampleRequest :: Request where
  "exampleRequest = \<lparr> authorization = None, query_access_token = None, token = None \<rparr>"

section \<open>Properties of the numbers\<close>

lemma bitLength_numeral:
  "bitLength (numeral k) = Suc (bitLength (numeral k div 2))"
  "bitLength 0 = 0"
  "bitLength 1 = 1"
  by (simp_all add: bitLength.simps [of "numeral k"] bitLength.simps [of 0] bitLength.simps [of 1])

lemma roundDouble_exact: "\<bar>x\<bar> \<le> 2 ^ 53 \<Longrightarrow> roundDouble x = Fin x"
  by (simp add: roundDouble_def)

lemma jsTimes_exact:
  "\<bar>x\<bar> \<le> 2 ^ 53 \<Longrightarrow> \<bar>y\<bar> \<le> 2 ^ 53 \<Longrightarrow> \<bar>x * y\<bar> \<le> 2 ^ 53 \<Longrightarrow>
   jsTimes (Fin x) (Fin y) = Fin (x * y)"
  by (simp add: jsTimes_def roundDouble_exact)

lemma jsPlus_exact:
  "\<bar>x\<bar> \<le> 2 ^ 53 \<Longrightarrow> \<bar>y\<bar> \<le> 2 ^ 53 \<Longrightarrow> \<bar>x + y\<bar> \<le> 2 ^ 53 \<Longrightarrow>
   jsPlus (Fin x) (Fin y) = Fin (x + y)"
  by (simp add: jsPlus_def roundDouble_exact)

text \<open>
  Within the whole numbers that doubles hold exactly, the expiry that
  \<open>parseTokenResponse\<close> computes is \<open>now + expires_in * 1000\<close>.
\<close>

lemma expiry_exact:
  assumes "\<bar>now\<bar> \<le> 2 ^ 53" and "\<bar>n * 1000\<bar> \<le> 2 ^ 53" and "\<bar>now + n * 1000\<bar> \<le> 2 ^ 53"
  shows "jsPlus (Fin now) (jsTimes (Fin n) (Fin 1000)) = Fin (now + n * 1000)"
proof -
  have n: "\<bar>n\<bar> \<le> 2 ^ 53"
    using assms(2) by (simp add: abs_mult)
  have "jsTimes (Fin n) (Fin 1000) = Fin (n * 1000)"
    using n assms(2) by (simp add: jsTimes_exact)
  then show ?thesis
    using assms by (simp add: jsPlus_exact)
qed

section \<open>Properties of token responses and expiry\<close>

lemma truthyString_iff: "truthyString x \<longleftrightarrow> x \<noteq> None \<and> x \<noteq> Some []"
  by (cases x) simp_all

text \<open>
  On an answer that keeps to the documented format, \<open>parseTokenResponse\<close> does not throw
  and returns what \<open>parseTypedResponse\<close> returns, whatever the platform's conversions.
\<close>

lemma parseTokenResponse_typed:
  "parseTokenResponse conv now (responseJson r) =
     Inr (map_sum errorObject tokenObject (parseTypedResponse now r))"
proof (cases r)
  case (JsObject data)
  show ?thesis
  proof (cases "truthyString (error data)")
    case True
    then obtain e where e: "error data = Some e" "e \<noteq> []"
      by (auto simp: truthyString_iff)
    show ?thesis
      using JsObject e
      by (cases "error_description data")
         (simp_all add: parseTokenResponse_def parseTypedResponse_def oauthError_def
            oauthErrorObject_def jsToString_def)
  next
    case False
    then have noerr: "\<not> truthy (optionalString (error data))"
      by (cases "error data") simp_all
    show ?thesis
    proof (cases "\<exists>a. access_token data = JsString a \<and> a \<noteq> []")
      case True
      then obtain a where a: "access_token data = JsString a" "a \<noteq> []"
        by blast
      show ?thesis
        using JsObject False noerr a
        by (cases "expires_in data"; cases "token_type data")
           (simp_all add: parseTokenResponse_def parseTypedResponse_def tokenObject_def
              jsToNumber_def)
    next
      case False
      then have "\<not> truthy (valueJson (access_token data)) \<or>
                 \<not> typeofString (valueJson (access_token data))"
        by (cases "access_token data") auto
      moreover have "parseTypedResponse now (JsObject data) =
          Inl (oauthError ''Missing access_token in response'' None)"
        using False \<open>\<not> truthyString (error data)\<close>
        by (cases "access_token data") (auto simp: parseTypedResponse_def)
      ultimately show ?thesis
        using JsObject noerr
        by (auto simp: parseTokenResponse_def oauthError_def oauthErrorObject_def)
    qed
  qed
qed (simp_all add: parseTokenResponse_def parseTypedResponse_def oauthError_def
       oauthErrorObject_def)

text \<open>
  Claim C3, as the code has it. \<open>parseTokenResponse\<close> fails with the OAuth error
  "Invalid token response format" when the payload is falsy or not an object. When the
  payload carries a truthy \<open>error\<close>, it fails with that value as code; the message is
  the \<open>error_description\<close> when there is one, and else \<open>String(error)\<close>, which is the
  error itself when it is a string. Otherwise, when \<open>access_token\<close> is missing, is not a
  string or is the empty string, it fails with "Missing access_token in response".
  Otherwise it succeeds: \<open>tokenType\<close> is the payload's \<open>token_type\<close> or else "Bearer",
  \<open>expiresAt\<close> is absent when \<open>expires_in\<close> is absent, and when \<open>expires_in\<close> is truthy
  it is \<open>Date.now() + expires_in * 1000\<close> as the doubles compute it, which is the number
  \<open>now + expires_in * 1000\<close> as long as the time, the product and the sum stay within
  \<open>2 ^ 53\<close>; the access token, the refresh token and the scope are the payload's. The
  statement leaves out a falsy \<open>expires_in\<close> that is present and a conversion that
  throws.
\<close>

theorem parseTokenResponse_cases:
  "(\<not> truthy response \<or> \<not> typeofObject response \<longrightarrow>
      parseTokenResponse conv now response =
        Inr (Inl \<lparr> errMessage = JStr ''Invalid token response format'',
                    errCode = JUndefined \<rparr>)) \<and>
   (truthy response \<and> typeofObject response \<and> truthy (property response ''error'') \<and>
    \<not> nullish (property response ''error_description'') \<longrightarrow>
      parseTokenResponse conv now response =
        Inr (Inl \<lparr> errMessage = property response ''error_description'',
                    errCode = property response ''error'' \<rparr>)) \<and>
   (\<forall>s. truthy response \<and> typeofObject response \<and> truthy (property response ''error'') \<and>
        nullish (property response ''error_description'') \<and>
        jsToString conv (property response ''error'') = Inr s \<longrightarrow>
      parseTokenResponse conv now response =
        Inr (Inl \<lparr> errMessage = JStr s, errCode = property response ''error'' \<rparr>)) \<and>
   (\<forall>e. truthy response \<and> typeofObject response \<and> property response ''error'' = JStr e \<and>
        e \<noteq> [] \<and> nullish (property response ''error_description'') \<longrightarrow>
      parseTokenResponse conv now response =
        Inr (Inl \<lparr> errMessage = JStr e, errCode = JStr e \<rparr>)) \<and>
   (truthy response \<and> typeofObject response \<and> \<not> truthy (property response ''error'') \<and>
    (\<forall>a. property response ''access_token'' = JStr a \<longrightarrow> a = []) \<longrightarrow>
      parseTokenResponse conv now response =
        Inr (Inl \<lparr> errMessage = JStr ''Missing access_token in response'',
                    errCode = JUndefined \<rparr>)) \<and>
   (\<forall>a. truthy response \<and> typeofObject response \<and> \<not> truthy (property response ''error'') \<and>
        property response ''access_token'' = JStr a \<and> a \<noteq> [] \<and>
        nullish (property response ''expires_in'') \<longrightarrow>
      parseTokenResponse conv now response =
        Inr (Inr \<lparr> objAccessToken = a,
                    objTokenType = (if nullish (property response ''token_type'')
                                    then JStr ''Bearer'' else property response ''token_type''),
                    objExpiresAt = None,
                    objRefreshToken = property response ''refresh_token'',
                    objScope = property response ''scope'' \<rparr>)) \<and>
   (\<forall>a n. truthy response \<and> typeofObject response \<and> \<not> truthy (property response ''error'') \<and>
        property response ''access_token'' = JStr a \<and> a \<noteq> [] \<and>
        truthy (property response ''expires_in'') \<and>
        jsToNumber conv (property response ''expires_in'') = Inr n \<longrightarrow>
      parseTokenResponse conv now response =
        Inr (Inr \<lparr> objAccessToken = a,
                    objTokenType = (if nullish (property response ''token_type'')
                                    then JStr ''Bearer'' else property response ''token_type''),
                    objExpiresAt = Some (jsPlus (Fin now) (jsTimes n (Fin 1000))),
                    objRefreshToken = property response ''refresh_token'',
                    objScope = property response ''scope'' \<rparr>)) \<and>
   (\<forall>n. jsToNumber conv (JNum (Fin n)) = Inr (Fin n) \<and>
        (\<bar>now\<bar> \<le> 2 ^ 53 \<and> \<bar>n * 1000\<bar> \<le> 2 ^ 53 \<and> \<bar>now + n * 1000\<bar> \<le> 2 ^ 53 \<longrightarrow>
           jsPlus (Fin now) (jsTimes (Fin n) (Fin 1000)) = Fin (now + n * 1000)))"
proof -
  have notobj: "\<not> truthy response \<or> \<not> typeofObject response \<longrightarrow>
      parseTokenResponse conv now response =
        Inr (Inl \<lparr> errMessage = JStr ''Invalid token response format'',
                    errCode = JUndefined \<rparr>)"
    by (auto simp: parseTokenResponse_def oauthErrorObject_def)
  have described: "truthy response \<and> typeofObject response \<and> truthy (property response ''error'') \<and>
    \<not> nullish (property response ''error_description'') \<longrightarrow>
      parseTokenResponse conv now response =
        Inr (Inl \<lparr> errMessage = property response ''error_description'',
                    errCode = property response ''error'' \<rparr>)"
    by (simp add: parseTokenResponse_def oauthErrorObject_def)
  have converted: "\<forall>s. truthy response \<and> typeofObject response \<and>
        truthy (property response ''error'') \<and>
        nullish (property response ''error_description'') \<and>
        jsToString conv (property response ''error'') = Inr s \<longrightarrow>
      parseTokenResponse conv now response =
        Inr (Inl \<lparr> errMessage = JStr s, errCode = property response ''error'' \<rparr>)"
    by (simp add: parseTokenResponse_def oauthErrorObject_def)
  have string: "\<forall>e. truthy response \<and> typeofObject response \<and>
        property response ''error'' = JStr e \<and>
        e \<noteq> [] \<and> nullish (property response ''error_description'') \<longrightarrow>
      parseTokenResponse conv now response =
        Inr (Inl \<lparr> errMessage = JStr e, errCode = JStr e \<rparr>)"
    by (simp add: parseTokenResponse_def oauthErrorObject_def jsToString_def)
  have missing: "truthy response \<and> typeofObject response \<and>
    \<not> truthy (property response ''error'') \<and>
    (\<forall>a. property response ''access_token'' = JStr a \<longrightarrow> a = []) \<longrightarrow>
      parseTokenResponse conv now response =
        Inr (Inl \<lparr> errMessage = JStr ''Missing access_token in response'',
                    errCode = JUndefined \<rparr>)"
    by (cases "property response ''access_token''")
       (auto simp: parseTokenResponse_def oauthErrorObject_def)
  have absent: "\<forall>a. truthy response \<and> typeofObject response \<and>
        \<not> truthy (property response ''error'') \<and>
        property response ''access_token'' = JStr a \<and> a \<noteq> [] \<and>
        nullish (property response ''expires_in'') \<longrightarrow>
      parseTokenResponse conv now response =
        Inr (Inr \<lparr> objAccessToken = a,
                    objTokenType = (if nullish (property response ''token_type'')
                                    then JStr ''Bearer'' else property response ''token_type''),
                    objExpiresAt = None,
                    objRefreshToken = property response ''refresh_token'',
                    objScope = property response ''scope'' \<rparr>)"
    by (cases "property response ''expires_in''")
       (auto simp: parseTokenResponse_def)
  have present: "\<forall>a n. truthy response \<and> typeofObject response \<and>
        \<not> truthy (property response ''error'') \<and>
        property response ''access_token'' = JStr a \<and> a \<noteq> [] \<and>
        truthy (property response ''expires_in'') \<and>
        jsToNumber conv (property response ''expires_in'') = Inr n \<longrightarrow>
      parseTokenResponse conv now response =
        Inr (Inr \<lparr> objAccessToken = a,
                    objTokenType = (if nullish (property response ''token_type'')
                                    then JStr ''Bearer'' else property response ''token_type''),
                    objExpiresAt = Some (jsPlus (Fin now) (jsTimes n (Fin 1000))),
                    objRefreshToken = property response ''refresh_token'',
                    objScope = property response ''scope'' \<rparr>)"
    by (auto simp: parseTokenResponse_def)
  have exact: "\<forall>n. jsToNumber conv (JNum (Fin n)) = Inr (Fin n) \<and>
        (\<bar>now\<bar> \<le> 2 ^ 53 \<and> \<bar>n * 1000\<bar> \<le> 2 ^ 53 \<and> \<bar>now + n * 1000\<bar> \<le> 2 ^ 53 \<longrightarrow>
           jsPlus (Fin now) (jsTimes (Fin n) (Fin 1000)) = Fin (now + n * 1000))"
    using expiry_exact [of now] by (simp add: jsToNumber_def)
  show ?thesis
    using notobj described converted string missing absent present exact by blast
qed

text \<open>
  The theorem at the responses of the specification's examples:
  \<open>{access_token: "xyz", expires_in: 3600}\<close> parsed at time 101002, the error response
  \<open>{error: "invalid_grant", error_description: "x"}\<close>, the same without a description,
  the empty object, and \<open>null\<close>.
\<close>

theorem parseTokenResponse_cases_witness:
  "parseTokenResponse exampleConversions 101002
       (JObj [(''access_token'', JStr ''xyz''), (''expires_in'', JNum (Fin 3600))]) =
     Inr (Inr \<lparr> objAccessToken = ''xyz'', objTokenType = JStr ''Bearer'',
                 objExpiresAt = Some (Fin 3701002), objRefreshToken = JUndefined,
                 objScope = JUndefined \<rparr>) \<and>
   parseTokenResponse exampleConversions 101002
       (JObj [(''error'', JStr ''invalid_grant''), (''error_description'', JStr ''x'')]) =
     Inr (Inl \<lparr> errMessage = JStr ''x'', errCode = JStr ''invalid_grant'' \<rparr>) \<and>
   parseTokenResponse exampleConversions 101002 (JObj [(''error'', JStr ''invalid_grant'')]) =
     Inr (Inl \<lparr> errMessage = JStr ''invalid_grant'', errCode = JStr ''invalid_grant'' \<rparr>) \<and>
   parseTokenResponse exampleConversions 101002 (JObj []) =
     Inr (Inl \<lparr> errMessage = JStr ''Missing access_token in response'',
                 errCode = JUndefined \<rparr>) \<and>
   parseTokenResponse exampleConversions 101002 JNull =
     Inr (Inl \<lparr> errMessage = JStr ''Invalid token response format'', errCode = JUndefined \<rparr>)"
proof -
  let ?ok = "JObj [(''access_token'', JStr ''xyz''), (''expires_in'', JNum (Fin 3600))]"
  have sum: "jsPlus (Fin 101002) (jsTimes (Fin 3600) (Fin 1000)) = Fin 3701002"
    using parseTokenResponse_cases [where conv = exampleConversions and now = 101002]
    by simp
  have "parseTokenResponse exampleConversions 101002 ?ok =
     Inr (Inr \<lparr> objAccessToken = ''xyz'', objTokenType = JStr ''Bearer'',
                 objExpiresAt = Some (jsPlus (Fin 101002) (jsTimes (Fin 3600) (Fin 1000))),
                 objRefreshToken = JUndefined, objScope = JUndefined \<rparr>)"
    using parseTokenResponse_cases
      [where conv = exampleConversions and now = 101002 and response = ?ok]
    by (simp add: jsToNumber_def)
  then have ok: "parseTokenResponse exampleConversions 101002 ?ok =
     Inr (Inr \<lparr> objAccessToken = ''xyz'', objTokenType = JStr ''Bearer'',
                 objExpiresAt = Some (Fin 3701002), objRefreshToken = JUndefined,
                 objScope = JUndefined \<rparr>)"
    using sum by simp
  have described: "parseTokenResponse exampleConversions 101002
       (JObj [(''error'', JStr ''invalid_grant''), (''error_description'', JStr ''x'')]) =
     Inr (Inl \<lparr> errMessage = JStr ''x'', errCode = JStr ''invalid_grant'' \<rparr>)"
    using parseTokenResponse_cases
      [where conv = exampleConversions and now = 101002
         and response = "JObj [(''error'', JStr ''invalid_grant''), (''error_description'', JStr ''x'')]"]
    by simp
  have plain: "parseTokenResponse exampleConversions 101002 (JObj [(''error'', JStr ''invalid_grant'')]) =
     Inr (Inl \<lparr> errMessage = JStr ''invalid_grant'', errCode = JStr ''invalid_grant'' \<rparr>)"
    using parseTokenResponse_cases
      [where conv = exampleConversions and now = 101002
         and response = "JObj [(''error'', JStr ''invalid_grant'')]"]
    by simp
  have missing: "parseTokenResponse exampleConversions 101002 (JObj []) =
     Inr (Inl \<lparr> errMessage = JStr ''Missing access_token in response'',
                 errCode = JUndefined \<rparr>)"
    using parseTokenResponse_cases
      [where conv = exampleConversions and now = 101002 and response = "JObj []"]
    by simp
  have notobj: "parseTokenResponse exampleConversions 101002 JNull =
     Inr (Inl \<lparr> errMessage = JStr ''Invalid token response format'', errCode = JUndefined \<rparr>)"
    using parseTokenResponse_cases
      [where conv = exampleConversions and now = 101002 and response = JNull]
    by simp
  show ?thesis
    using ok described plain missing notobj by blast
qed

text \<open>
  The claim as stated fails in four places. The response
  \<open>{error: "", access_token: "a", expires_in: 0}\<close> carries an \<open>error\<close> field and an
  \<open>expires_in\<close>, and is parsed with success into a token without \<open>expiresAt\<close>. The
  response \<open>{access_token: ""}\<close>, whose \<open>access_token\<close> is present and a string, fails.
  For \<open>expires_in = 9007199254740991\<close> at time 1 the doubles give 9007199254740990976,
  which is not \<open>now + expires_in * 1000\<close>. And for the error \<open>{toString: 1}\<close> without a
  description, \<open>String(data.error)\<close> throws, and no \<open>Result\<close> is returned.
\<close>

theorem parseTokenResponse_counterexample:
  "parseTokenResponse exampleConversions 1000
       (JObj [(''error'', JStr ''''), (''access_token'', JStr ''a''),
              (''expires_in'', JNum (Fin 0))]) =
     Inr (Inr \<lparr> objAccessToken = ''a'', objTokenType = JStr ''Bearer'',
                 objExpiresAt = None, objRefreshToken = JUndefined,
                 objScope = JUndefined \<rparr>) \<and>
   parseTokenResponse exampleConversions 1000 (JObj [(''access_token'', JStr '''')]) =
     Inr (Inl \<lparr> errMessage = JStr ''Missing access_token in response'',
                 errCode = JUndefined \<rparr>) \<and>
   parseTokenResponse exampleConversions 1
       (JObj [(''access_token'', JStr ''a''),
              (''expires_in'', JNum (Fin 9007199254740991))]) =
     Inr (Inr \<lparr> objAccessToken = ''a'', objTokenType = JStr ''Bearer'',
                 objExpiresAt = Some (Fin 9007199254740990976),
                 objRefreshToken = JUndefined, objScope = JUndefined \<rparr>) \<and>
   parseTokenResponse exampleConversions 1000
       (JObj [(''error'', JObj [(''toString'', JNum (Fin 1))])]) =
     Inl (ThrownError ''Cannot convert object to primitive value'')"
  by (simp add: parseTokenResponse_def oauthErrorObject_def exampleConversions_def
      jsToString_def jsToNumber_def jsPlus_def jsTimes_def roundDouble_def Let_def
      bitLength_numeral)

text \<open>
  The code's test and the specification's rule differ for one value only: a token whose
  \<open>expiresAt\<close> is 0 is expired by the rule and not by the code.
\<close>

lemma jsGreaterEq_NaN:
  "\<not> jsGreaterEq a (jsMinus NaN b)"
proof -
  have "jsMinus NaN b = NaN"
    by (cases "canonical (jsNegate b)") (simp_all add: jsMinus_def jsPlus_def)
  then show ?thesis
    by (cases "canonical a") (simp_all add: jsGreaterEq_def)
qed

lemma isTokenExpired_specExpiryRule:
  "isTokenExpired now tok bufferMs \<longleftrightarrow>
     specExpiryRule now tok bufferMs \<and> expiresAt tok \<noteq> Some (Fin 0)"
proof (cases "expiresAt tok")
  case None
  then show ?thesis
    by (simp add: isTokenExpired_def specExpiryRule_def)
next
  case (Some e)
  then show ?thesis
    by (cases e; cases bufferMs)
       (simp_all add: isTokenExpired_def specExpiryRule_def jsGreaterEq_NaN)
qed

text \<open>
  Claim C4, evaluated on the code. The claim's rule is \<open>specExpiryRule\<close>. For the token
  whose \<open>expiresAt\<close> is 0, at time 1000 and with the default buffer, the rule holds
  (\<open>1000 >= 0 - 30000\<close>), and \<open>isTokenExpired\<close> answers \<open>false\<close>: the test
  \<open>!token.expiresAt\<close>, meant for a missing field, also takes the number 0.
\<close>

theorem isTokenExpired_misses_zero:
  "expiresAt epochToken = Some (Fin 0) \<and>
   specExpiryRule 1000 epochToken None \<and>
   jsGreaterEq (Fin 1000) (jsMinus (Fin 0) (Fin 30000)) \<and>
   \<not> isTokenExpired 1000 epochToken None \<and>
   \<not> isTokenExpired 1000 epochToken (Some 30000)"
  by (simp add: epochToken_def specExpiryRule_def isTokenExpired_def jsGreaterEq_def
      jsMinus_def jsPlus_def roundDouble_def)

section \<open>Properties of the token manager\<close>

text \<open>
  What \<open>getValidToken\<close> does without a refresh, with the specification's expiry rule: a
  stored token that the rule does not call expired is returned unchanged; one that the
  rule calls expired, whose \<open>expiresAt\<close> is not 0 and that has no refresh token, gives
  "Token expired and no refresh token available"; and a missing token gives
  "Token not found". In all three cases the world is returned as it was: no request is
  sent and the store is untouched.
\<close>

lemma getValidToken_without_refresh:
  "(store w key = Some tok \<and> \<not> specExpiryRule now tok None \<longrightarrow>
      getValidToken now now' st key w = (Inr tok, w)) \<and>
   (store w key = Some tok \<and> specExpiryRule now tok None \<and> expiresAt tok \<noteq> Some (Fin 0) \<and>
    refreshToken tok = None \<longrightarrow>
      getValidToken now now' st key w =
        (Inl (TokenError ''Token expired and no refresh token available'' None), w)) \<and>
   (store w key = None \<longrightarrow>
      getValidToken now now' st key w = (Inl (TokenError ''Token not found'' (Some key)), w))"
  by (simp add: getValidToken_def getToken_def canRefreshToken_def tokenError_def
      isTokenExpired_specExpiryRule)

text \<open>
  Claim C2, evaluated on the code. The token stored under \<open>u1\<close> has \<open>expiresAt\<close> 0 and no
  refresh token. At time 1000 it is expired by the expiry rule, so the claim has
  \<open>getValidToken\<close> fail with "Token expired and no refresh token available"; the code
  returns the token. No request is sent and the store is unchanged, as the claim says.
\<close>

theorem getValidToken_returns_epoch_token:
  "store (exampleWorld\<lparr>store := [''u1'' \<mapsto> epochToken]\<rparr>) ''u1'' = Some epochToken \<and>
   specExpiryRule 1000 epochToken None \<and>
   refreshToken epochToken = None \<and>
   getValidToken 1000 1001 exampleManager ''u1'' (exampleWorld\<lparr>store := [''u1'' \<mapsto> epochToken]\<rparr>) =
     (Inr epochToken, exampleWorld\<lparr>store := [''u1'' \<mapsto> epochToken]\<rparr>)"
  by (simp add: epochToken_def specExpiryRule_def isTokenExpired_def jsGreaterEq_def
      jsMinus_def jsPlus_def roundDouble_def getValidToken_def getToken_def)

text \<open>
  Claim C9. Whenever \<open>getValidToken\<close> returns an error, the store is as it was before the
  call, under every key. The store is written only on the path of a successful refresh:
  if it differs afterwards, the call succeeded, exactly one request was sent, and the
  difference is the returned token under the queried key.
\<close>

theorem getValidToken_error_atomic:
  assumes run: "getValidToken now now' st key w = (r, w')"
  shows "(\<forall>e. r = Inl e \<longrightarrow> store w' = store w) \<and>
     (store w' \<noteq> store w \<longrightarrow>
        (\<exists>new. r = Inr new \<and> store w' = (store w)(key \<mapsto> new) \<and>
               length (sent w') = Suc (length (sent w))))"
proof (intro conjI allI impI)
  fix e assume "r = Inl e"
  with run show "store w' = store w"
    by (auto simp: getValidToken_def getToken_def refreshTokenRequest_def setToken_def Let_def
        split: option.splits if_splits sum.splits prod.splits)
next
  assume "store w' \<noteq> store w"
  with run show "\<exists>new. r = Inr new \<and> store w' = (store w)(key \<mapsto> new) \<and>
               length (sent w') = Suc (length (sent w))"
    by (cases r)
       (auto simp: getValidToken_def getToken_def refreshTokenRequest_def setToken_def Let_def
        split: option.splits if_splits sum.splits prod.splits)
qed

text \<open>
  The theorem at two runs on the example world at time 101000, when the stored token is
  expired: with the endpoint whose request fails, the call returns the error, one
  request has been sent and the store is as before; with the endpoint that answers, the
  call succeeds and the store differs under \<open>u1\<close>.
\<close>

theorem getValidToken_error_atomic_witness:
  "getValidToken 101000 101002 failingManager ''u1'' exampleWorld =
     (Inl (TokenError ''connect ECONNREFUSED'' None),
      exampleWorld\<lparr>sent := [\<lparr> url = ''https://auth/token'', httpMethod = ''POST'',
           headers = [(''Content-Type'', ''application/x-www-form-urlencoded'')],
           body = [(''grant_type'', ''refresh_token''), (''refresh_token'', ''r1''),
                   (''client_id'', ''c1''), (''client_secret'', ''s3cret'')] \<rparr>]\<rparr>) \<and>
   store (snd (getValidToken 101000 101002 failingManager ''u1'' exampleWorld)) = store exampleWorld \<and>
   store (snd (getValidToken 101000 101002 exampleManager ''u1'' exampleWorld)) \<noteq> store exampleWorld \<and>
   length (sent (snd (getValidToken 101000 101002 exampleManager ''u1'' exampleWorld))) = 1"
proof -
  have run: "getValidToken 101000 101002 failingManager ''u1'' exampleWorld =
     (Inl (TokenError ''connect ECONNREFUSED'' None),
      exampleWorld\<lparr>sent := [\<lparr> url = ''https://auth/token'', httpMethod = ''POST'',
           headers = [(''Content-Type'', ''application/x-www-form-urlencoded'')],
           body = [(''grant_type'', ''refresh_token''), (''refresh_token'', ''r1''),
                   (''client_id'', ''c1''), (''client_secret'', ''s3cret'')] \<rparr>]\<rparr>)"
    by (simp add: exampleConfig_def failingManager_def exampleStoredToken_def
        exampleWorld_def getValidToken_def getToken_def isTokenExpired_def
        canRefreshToken_def refreshTokenRequest_def buildRefreshTokenBody_def tokenError_def
        jsGreaterEq_def jsMinus_def jsPlus_def roundDouble_def)
  have kept: "store (snd (getValidToken 101000 101002 failingManager ''u1'' exampleWorld)) =
      store exampleWorld"
    using run getValidToken_error_atomic [OF run] by simp
  obtain r w' where ok: "getValidToken 101000 101002 exampleManager ''u1'' exampleWorld = (r, w')"
    by (cases "getValidToken 101000 101002 exampleManager ''u1'' exampleWorld")
  have "store w' ''u1'' \<noteq> store exampleWorld ''u1''"
    using ok
    by (auto simp: exampleConfig_def exampleRefreshResponse_def exampleManager_def
        exampleStoredToken_def exampleWorld_def getValidToken_def getToken_def isTokenExpired_def
        canRefreshToken_def refreshTokenRequest_def buildRefreshTokenBody_def tokenError_def
        parseTypedResponse_def setToken_def jsGreaterEq_def jsMinus_def jsPlus_def
        jsTimes_def roundDouble_def)
  then have changed: "store w' \<noteq> store exampleWorld"
    by auto
  then have "length (sent w') = Suc (length (sent exampleWorld))"
    using getValidToken_error_atomic [OF ok] by blast
  then have one: "length (sent w') = 1"
    by (simp add: exampleWorld_def)
  show ?thesis
    using run kept changed one ok by simp
qed

text \<open>
  The path of a successful refresh, for every input: the token returned and the token
  left under the key are the parsed response, whatever the old token held.
\<close>

lemma getValidToken_refresh_path:
  assumes "store w key = Some tok"
    and "isTokenExpired now tok None"
    and "refreshToken tok = Some rt"
    and "refreshTokenRequest now' st rt w = (Inr new, w2)"
  shows "getValidToken now now' st key w = (Inr new, w2\<lparr>store := (store w2)(key \<mapsto> new)\<rparr>)"
  using assms
  by (simp add: getValidToken_def getToken_def canRefreshToken_def setToken_def)

text \<open>
  Claim C1, evaluated on the code. The stored token is expired and carries the refresh
  token \<open>r1\<close>; the refresh response has no \<open>refresh_token\<close>. \<open>getValidToken\<close> returns the
  parsed response as it is and stores it under \<open>u1\<close>: the refresh token is gone from the
  result and from the store. \<open>mergeTokens\<close> of the old and the new token would have kept
  \<open>r1\<close>, but \<open>getValidToken\<close> does not call it.
\<close>

theorem getValidToken_refresh_loses_refreshToken:
  "isTokenExpired 101000 exampleStoredToken None \<and>
   specExpiryRule 101000 exampleStoredToken None \<and>
   refreshToken exampleStoredToken = Some ''r1'' \<and>
   parseTypedResponse 101002 (JsObject exampleRefreshResponse) =
     Inr \<lparr> accessToken = ''xyz'', tokenType = ''Bearer'', expiresAt = Some (Fin 3701002),
           refreshToken = None, scope = None \<rparr> \<and>
   fst (getValidToken 101000 101002 exampleManager ''u1'' exampleWorld) =
     Inr \<lparr> accessToken = ''xyz'', tokenType = ''Bearer'', expiresAt = Some (Fin 3701002),
           refreshToken = None, scope = None \<rparr> \<and>
   store (snd (getValidToken 101000 101002 exampleManager ''u1'' exampleWorld)) ''u1'' =
     Some \<lparr> accessToken = ''xyz'', tokenType = ''Bearer'', expiresAt = Some (Fin 3701002),
            refreshToken = None, scope = None \<rparr> \<and>
   mergeTokens exampleStoredToken
       \<lparr> accessToken = ''xyz'', tokenType = ''Bearer'', expiresAt = Some (Fin 3701002),
         refreshToken = None, scope = None \<rparr> =
     \<lparr> accessToken = ''xyz'', tokenType = ''Bearer'', expiresAt = Some (Fin 3701002),
       refreshToken = Some ''r1'', scope = None \<rparr>"
  by (simp add: exampleConfig_def exampleRefreshResponse_def exampleManager_def
        exampleStoredToken_def exampleWorld_def getValidToken_def getToken_def isTokenExpired_def
        canRefreshToken_def refreshTokenRequest_def buildRefreshTokenBody_def tokenError_def
        parseTypedResponse_def setToken_def mergeTokens_def specExpiryRule_def jsGreaterEq_def jsMinus_def
        jsPlus_def jsTimes_def roundDouble_def)

section \<open>Properties of the code challenge\<close>

lemma base64Alphabet_length: "length base64Alphabet = 64"
  by (simp add: base64Alphabet_def)

lemma base64Alphabet_urlSafe:
  "\<forall>c \<in> set base64Alphabet. c \<noteq> CHR ''='' \<and> urlSafe (urlChar c)"
  by (simp add: base64Alphabet_def base64UrlAlphabet_def urlSafe_def urlChar_def)

lemma b64char_urlSafe:
  assumes "n < 64"
  shows "b64char n \<noteq> CHR ''=''" and "urlSafe (urlChar (b64char n))"
proof -
  have "b64char n \<in> set base64Alphabet"
    using assms by (simp add: b64char_def base64Alphabet_length)
  then show "b64char n \<noteq> CHR ''=''" and "urlSafe (urlChar (b64char n))"
    using base64Alphabet_urlSafe by blast+
qed

text \<open>The four six-bit groups taken from three bytes are indices into the alphabet.\<close>

lemma sextet_bounds:
  fixes a b c :: "8 word"
  shows "unat a div 4 < 64"
    and "(unat a mod 4) * 16 < 64"
    and "(unat a mod 4) * 16 + unat b div 16 < 64"
    and "(unat b mod 16) * 4 < 64"
    and "(unat b mod 16) * 4 + unat c div 64 < 64"
    and "unat c mod 64 < 64"
proof -
  have a: "unat a < 256" and b: "unat b < 256" and c: "unat c < 256"
    using unsigned_less [of a, where ?'a = nat] unsigned_less [of b, where ?'a = nat]
      unsigned_less [of c, where ?'a = nat] by simp_all
  show "unat a div 4 < 64" using a by arith
  show "(unat a mod 4) * 16 < 64" by arith
  show "(unat a mod 4) * 16 + unat b div 16 < 64" using b by arith
  show "(unat b mod 16) * 4 < 64" by arith
  show "(unat b mod 16) * 4 + unat c div 64 < 64" using c by arith
  show "unat c mod 64 < 64" by arith
qed

lemma encodeChars_Nil: "encodeChars [] = []"
  by (simp add: encodeChars_def replaceChar_def removeChar_def)

lemma encodeChars_Cons:
  "encodeChars (c # cs) = (if c = CHR ''='' then encodeChars cs else urlChar c # encodeChars cs)"
  by (simp add: encodeChars_def replaceChar_def removeChar_def urlChar_def)

lemma encodeChars_b64char:
  "n < 64 \<Longrightarrow> encodeChars (b64char n # cs) = urlChar (b64char n) # encodeChars cs"
  using b64char_urlSafe(1) [of n] by (simp add: encodeChars_Cons)

lemma base64UrlEncode_encodeChars: "base64UrlEncode bs = encodeChars (toBase64 bs)"
  by (simp add: encodeChars_def base64UrlEncode_def)

text \<open>
  The unpadded encoding of \<open>n\<close> bytes has \<open>(4 * n + 2) div 3\<close> characters, all of them
  in the base64url alphabet.
\<close>

lemma encodeChars_toBase64:
  "length (encodeChars (toBase64 bs)) = (4 * length bs + 2) div 3 \<and>
   list_all urlSafe (encodeChars (toBase64 bs))"
proof (induction bs rule: toBase64.induct)
  case 1
  show ?case by (simp add: encodeChars_Nil)
next
  case (2 a)
  have pad: "encodeChars ''=='' = []"
    by (simp add: encodeChars_Cons encodeChars_Nil)
  show ?case
    by (simp add: encodeChars_b64char pad sextet_bounds b64char_urlSafe(2))
next
  case (3 a b)
  have pad: "encodeChars ''='' = []"
    by (simp add: encodeChars_Cons encodeChars_Nil)
  show ?case
    by (simp add: encodeChars_b64char pad sextet_bounds b64char_urlSafe(2))
next
  case (4 a b c bs)
  have len: "(4 * length (a # b # c # bs) + 2) div 3 = 4 + (4 * length bs + 2) div 3"
    by simp
  show ?case
    unfolding len using 4
    by (simp add: encodeChars_b64char sextet_bounds b64char_urlSafe(2))
qed

text \<open>
  Claim C8. \<open>computeCodeChallenge\<close> is a function of the verifier alone (given the hash),
  so equal verifiers give equal challenges; and when the digest has the 32 bytes of
  SHA-256, the challenge has exactly 43 characters, none of them \<open>+\<close>, \<open>/\<close> or \<open>=\<close>, all of
  them in the base64url alphabet: it passes \<open>isValidCodeChallenge\<close>.
\<close>

theorem computeCodeChallenge_shape:
  assumes "length (sha256 verifier) = 32"
  shows "length (computeCodeChallenge sha256 verifier) = 43 \<and>
         CHR ''+'' \<notin> set (computeCodeChallenge sha256 verifier) \<and>
         CHR ''/'' \<notin> set (computeCodeChallenge sha256 verifier) \<and>
         CHR ''='' \<notin> set (computeCodeChallenge sha256 verifier) \<and>
         set (computeCodeChallenge sha256 verifier) \<subseteq> set base64UrlAlphabet \<and>
         isValidCodeChallenge (computeCodeChallenge sha256 verifier) \<and>
         (\<forall>verifier'. verifier' = verifier \<longrightarrow>
            computeCodeChallenge sha256 verifier' = computeCodeChallenge sha256 verifier)"
proof -
  let ?c = "computeCodeChallenge sha256 verifier"
  have len: "length ?c = 43"
    using encodeChars_toBase64 [of "sha256 verifier"] assms
    by (simp add: computeCodeChallenge_def base64UrlEncode_encodeChars)
  have safe: "\<forall>c \<in> set ?c. urlSafe c"
    using encodeChars_toBase64 [of "sha256 verifier"]
    by (simp add: computeCodeChallenge_def base64UrlEncode_encodeChars list_all_iff)
  have "length ?c \<noteq> 0"
    unfolding len by simp
  then have ne: "?c \<noteq> []"
    by simp
  have sub: "set ?c \<subseteq> set base64UrlAlphabet"
    using safe urlSafe_def by blast
  then have alpha: "list_all (\<lambda>c. c \<in> set base64UrlAlphabet) ?c"
    unfolding list_all_iff by blast
  have valid: "isValidCodeChallenge ?c"
    unfolding isValidCodeChallenge_def using len ne alpha by simp
  have plus: "CHR ''+'' \<notin> set ?c" and slash: "CHR ''/'' \<notin> set ?c" and pad: "CHR ''='' \<notin> set ?c"
    using safe urlSafe_def by blast+
  show ?thesis
    using len plus slash pad sub valid by blast
qed

text \<open>
  The theorem at the verifier of RFC 7636, appendix B, whose SHA-256 digest is the 32
  bytes of \<open>exampleSha256\<close>: the challenge is the one the RFC lists.
\<close>

theorem computeCodeChallenge_shape_witness:
  "length (exampleSha256 ''dBjftJeZ4CVP-mB92K27uhbUJU1p1r_wW1gFWFOEjXk'') = 32 \<and>
   computeCodeChallenge exampleSha256 ''dBjftJeZ4CVP-mB92K27uhbUJU1p1r_wW1gFWFOEjXk'' =
     ''E9Melhoa2OwvFrEMTJguCHaoeK1t8URWbuGJSstw-cM'' \<and>
   length (computeCodeChallenge exampleSha256 ''dBjftJeZ4CVP-mB92K27uhbUJU1p1r_wW1gFWFOEjXk'') = 43 \<and>
   isValidCodeChallenge
     (computeCodeChallenge exampleSha256 ''dBjftJeZ4CVP-mB92K27uhbUJU1p1r_wW1gFWFOEjXk'')"
proof -
  have digest: "length (exampleSha256 ''dBjftJeZ4CVP-mB92K27uhbUJU1p1r_wW1gFWFOEjXk'') = 32"
    by (simp add: exampleSha256_def)
  have challenge:
    "computeCodeChallenge exampleSha256 ''dBjftJeZ4CVP-mB92K27uhbUJU1p1r_wW1gFWFOEjXk'' =
       ''E9Melhoa2OwvFrEMTJguCHaoeK1t8URWbuGJSstw-cM''"
    by (simp add: computeCodeChallenge_def exampleSha256_def base64UrlEncode_def
        replaceChar_def removeChar_def b64char_def base64Alphabet_def)
  show ?thesis
    using digest challenge
      computeCodeChallenge_shape
        [where ?sha256.0 = exampleSha256
           and verifier = "''dBjftJeZ4CVP-mB92K27uhbUJU1p1r_wW1gFWFOEjXk''"]
    by blast
qed

section \<open>Properties of the authorization request and the code exchange\<close>

lemma map_of_filter_other:
  "k' \<noteq> k \<Longrightarrow> map_of (filter (\<lambda>q. fst q \<noteq> k) ps) k' = map_of ps k'"
  by (induction ps) auto

lemma map_of_searchParamsSet:
  "map_of (searchParamsSet k v ps) = (map_of ps)(k \<mapsto> v)"
proof (induction ps)
  case Nil
  show ?case by simp
next
  case (Cons p ps)
  show ?case
  proof (cases "fst p = k")
    case True
    have "map_of ((k, v) # filter (\<lambda>q. fst q \<noteq> k) ps) k' = ((map_of (p # ps))(k \<mapsto> v)) k'" for k'
      using True by (cases p) (simp add: map_of_filter_other)
    then show ?thesis using True by auto
  next
    case False
    then show ?thesis using Cons by (cases p) (auto simp: fun_upd_twist)
  qed
qed

lemma occurrences_set_same: "occurrences k (searchParamsSet k v ps) = 1"
  by (induction ps) (auto simp: occurrences_def filter_empty_conv)

lemma occurrences_filter_other:
  "k' \<noteq> k \<Longrightarrow> occurrences k' (filter (\<lambda>q. fst q \<noteq> k) ps) = occurrences k' ps"
  by (induction ps) (auto simp: occurrences_def)

lemma occurrences_set_other:
  "k' \<noteq> k \<Longrightarrow> occurrences k' (searchParamsSet k v ps) = occurrences k' ps"
proof (induction ps)
  case Nil
  then show ?case by (simp add: occurrences_def)
next
  case (Cons p ps)
  show ?case
  proof (cases "fst p = k")
    case True
    then show ?thesis
      using Cons.prems occurrences_filter_other [OF Cons.prems, of ps]
      by (simp add: occurrences_def)
  next
    case False
    then show ?thesis
      using Cons by (simp add: occurrences_def)
  qed
qed

text \<open>
  Claim C6, as the code has it. When \<open>authorizationUrl\<close> parses, the URL built has the
  parameters \<open>response_type=code\<close>, \<open>client_id\<close>, \<open>redirect_uri\<close> and \<open>state\<close>, each once
  and with the value of the configuration or the state. When \<open>scopes\<close> is not empty the
  URL has \<open>scope\<close> with the scopes joined by a space; when it is empty the builder leaves
  \<open>scope\<close> as \<open>authorizationUrl\<close> had it. When \<open>pkce\<close> is not \<open>false\<close> the URL has
  \<open>code_challenge\<close> with the state's challenge and \<open>code_challenge_method=S256\<close>; when it
  is \<open>false\<close> the builder leaves both as \<open>authorizationUrl\<close> had them. So for an
  \<open>authorizationUrl\<close> without these parameters, \<open>scope\<close> is there exactly when \<open>scopes\<close> is
  not empty, and the two PKCE parameters exactly when \<open>pkce\<close> is not \<open>false\<close>.
\<close>

theorem buildAuthorizationUrl_params:
  assumes "newURL (authorizationUrl cfg) = Some u"
  shows "\<exists>r. buildAuthorizationUrl newURL cfg st = Some r \<and>
           base r = base u \<and>
           param r ''response_type'' = Some ''code'' \<and>
           param r ''client_id'' = Some (clientId cfg) \<and>
           param r ''redirect_uri'' = Some (stateRedirectUri st) \<and>
           param r ''state'' = Some (state st) \<and>
           occurrences ''response_type'' (searchParams r) = 1 \<and>
           occurrences ''client_id'' (searchParams r) = 1 \<and>
           occurrences ''redirect_uri'' (searchParams r) = 1 \<and>
           occurrences ''state'' (searchParams r) = 1 \<and>
           param r ''scope'' =
             (if scopes cfg \<noteq> [] then Some (join '' '' (scopes cfg)) else param u ''scope'') \<and>
           param r ''code_challenge'' =
             (if pkce cfg \<noteq> Some False then Some (codeChallenge (statePkce st))
              else param u ''code_challenge'') \<and>
           param r ''code_challenge_method'' =
             (if pkce cfg \<noteq> Some False then Some ''S256''
              else param u ''code_challenge_method'') \<and>
           (param u ''scope'' = None \<longrightarrow>
              (param r ''scope'' \<noteq> None \<longleftrightarrow> scopes cfg \<noteq> [])) \<and>
           (param u ''code_challenge'' = None \<and> param u ''code_challenge_method'' = None \<longrightarrow>
              (param r ''code_challenge'' \<noteq> None \<longleftrightarrow> pkce cfg \<noteq> Some False) \<and>
              (param r ''code_challenge_method'' \<noteq> None \<longleftrightarrow> pkce cfg \<noteq> Some False))"
proof -
  have m: "methodString (codeChallengeMethod (statePkce st)) = ''S256''"
    by (cases "codeChallengeMethod (statePkce st)") simp
  show ?thesis
    using assms m
    by (simp add: buildAuthorizationUrl_def param_def Let_def pkceToQueryParams_def
        map_of_searchParamsSet occurrences_set_same occurrences_set_other)
qed

text \<open>
  The theorem at the specification's first scenario: client \<open>c1\<close>, scope \<open>read\<close>, PKCE on,
  and an \<open>authorizationUrl\<close> without a query.
\<close>

theorem buildAuthorizationUrl_params_witness:
  "exampleNewURL (authorizationUrl exampleConfig) =
     Some \<lparr> base = ''https://auth/authorize'', searchParams = [] \<rparr> \<and>
   buildAuthorizationUrl exampleNewURL exampleConfig exampleState =
     Some \<lparr> base = ''https://auth/authorize'',
            searchParams = [(''response_type'', ''code''), (''client_id'', ''c1''),
                            (''redirect_uri'', ''https://app/cb''), (''state'', ''af0ifjsldkj''),
                            (''scope'', ''read''),
                            (''code_challenge'', ''E9Melhoa2OwvFrEMTJguCHaoeK1t8URWbuGJSstw-cM''),
                            (''code_challenge_method'', ''S256'')] \<rparr> \<and>
   param (the (buildAuthorizationUrl exampleNewURL exampleConfig exampleState)) ''scope'' =
     Some ''read'' \<and>
   param (the (buildAuthorizationUrl exampleNewURL exampleConfig exampleState))
     ''code_challenge_method'' = Some ''S256''"
proof -
  have parsed: "exampleNewURL (authorizationUrl exampleConfig) =
     Some \<lparr> base = ''https://auth/authorize'', searchParams = [] \<rparr>"
    by (simp add: exampleConfig_def exampleNewURL_def)
  have built: "buildAuthorizationUrl exampleNewURL exampleConfig exampleState =
     Some \<lparr> base = ''https://auth/authorize'',
            searchParams = [(''response_type'', ''code''), (''client_id'', ''c1''),
                            (''redirect_uri'', ''https://app/cb''), (''state'', ''af0ifjsldkj''),
                            (''scope'', ''read''),
                            (''code_challenge'', ''E9Melhoa2OwvFrEMTJguCHaoeK1t8URWbuGJSstw-cM''),
                            (''code_challenge_method'', ''S256'')] \<rparr>"
    by (simp add: exampleConfig_def exampleNewURL_def exampleState_def examplePkce_def
        buildAuthorizationUrl_def pkceToQueryParams_def)
  have "param (the (buildAuthorizationUrl exampleNewURL exampleConfig exampleState)) ''scope'' =
          Some ''read'' \<and>
        param (the (buildAuthorizationUrl exampleNewURL exampleConfig exampleState))
          ''code_challenge_method'' = Some ''S256''"
    using parsed
      buildAuthorizationUrl_params
        [where newURL = exampleNewURL and cfg = exampleConfig and st = exampleState
           and u = "\<lparr> base = ''https://auth/authorize'', searchParams = [] \<rparr>"]
    by (auto simp: exampleConfig_def)
  then show ?thesis
    using parsed built by blast
qed

text \<open>
  The claim as stated fails when \<open>authorizationUrl\<close> has such parameters of its own: with
  no scopes and PKCE off, the URL built from
  \<open>https://auth/authorize?scope=admin&code_challenge=abc\<close> has \<open>scope\<close> and
  \<open>code_challenge\<close>.
\<close>

theorem buildAuthorizationUrl_counterexample:
  "scopes (exampleConfig\<lparr>authorizationUrl := ''https://auth/authorize?scope=admin&code_challenge=abc'',
                          scopes := [], pkce := Some False\<rparr>) = [] \<and>
   pkce (exampleConfig\<lparr>authorizationUrl := ''https://auth/authorize?scope=admin&code_challenge=abc'',
                        scopes := [], pkce := Some False\<rparr>) = Some False \<and>
   buildAuthorizationUrl exampleNewURL
       (exampleConfig\<lparr>authorizationUrl := ''https://auth/authorize?scope=admin&code_challenge=abc'',
                       scopes := [], pkce := Some False\<rparr>) exampleState =
     Some \<lparr> base = ''https://auth/authorize'',
            searchParams = [(''scope'', ''admin''), (''code_challenge'', ''abc''),
                            (''response_type'', ''code''), (''client_id'', ''c1''),
                            (''redirect_uri'', ''https://app/cb''), (''state'', ''af0ifjsldkj'')] \<rparr>"
  by (simp add: exampleConfig_def exampleNewURL_def exampleState_def examplePkce_def
        buildAuthorizationUrl_def)

text \<open>
  Claim C7. The body of the code exchange has \<open>grant_type\<close> "authorization_code", the
  given code, the state's \<open>redirectUri\<close> as \<open>redirect_uri\<close> and the configuration's
  \<open>client_id\<close>. It has \<open>client_secret\<close> exactly when the configuration's secret is not
  empty, with that value, and \<open>code_verifier\<close> exactly when \<open>pkce\<close> is not \<open>false\<close>, with
  the \<open>codeVerifier\<close> of the given state. It has no other property, and none twice.
\<close>

theorem buildTokenRequestBody_fields:
  "map_of (buildTokenRequestBody cfg authCode st) ''grant_type'' = Some ''authorization_code'' \<and>
   map_of (buildTokenRequestBody cfg authCode st) ''code'' = Some authCode \<and>
   map_of (buildTokenRequestBody cfg authCode st) ''redirect_uri'' = Some (stateRedirectUri st) \<and>
   map_of (buildTokenRequestBody cfg authCode st) ''client_id'' = Some (clientId cfg) \<and>
   map_of (buildTokenRequestBody cfg authCode st) ''client_secret'' =
     (if clientSecret cfg = [] then None else Some (clientSecret cfg)) \<and>
   map_of (buildTokenRequestBody cfg authCode st) ''code_verifier'' =
     (if pkce cfg = Some False then None else Some (codeVerifier (statePkce st))) \<and>
   distinct (map fst (buildTokenRequestBody cfg authCode st)) \<and>
   set (map fst (buildTokenRequestBody cfg authCode st)) \<subseteq>
     {''grant_type'', ''code'', ''redirect_uri'', ''client_id'', ''client_secret'',
      ''code_verifier''}"
  by (simp add: buildTokenRequestBody_def objectAssign_def pkceToTokenParams_def Let_def)

text \<open>
  The theorem at the example configuration and state, and at the same configuration
  without a secret and with PKCE off.
\<close>

theorem buildTokenRequestBody_fields_witness:
  "buildTokenRequestBody exampleConfig ''SplxlOBeZQQYbYS6WxSbIA'' exampleState =
     [(''grant_type'', ''authorization_code''), (''code'', ''SplxlOBeZQQYbYS6WxSbIA''),
      (''redirect_uri'', ''https://app/cb''), (''client_id'', ''c1''),
      (''client_secret'', ''s3cret''),
      (''code_verifier'', ''dBjftJeZ4CVP-mB92K27uhbUJU1p1r_wW1gFWFOEjXk'')] \<and>
   map_of (buildTokenRequestBody exampleConfig ''SplxlOBeZQQYbYS6WxSbIA'' exampleState)
     ''code_verifier'' = Some (codeVerifier (statePkce exampleState)) \<and>
   map_of (buildTokenRequestBody (exampleConfig\<lparr>clientSecret := [], pkce := Some False\<rparr>)
             ''SplxlOBeZQQYbYS6WxSbIA'' exampleState) ''code_verifier'' = None \<and>
   map_of (buildTokenRequestBody (exampleConfig\<lparr>clientSecret := [], pkce := Some False\<rparr>)
             ''SplxlOBeZQQYbYS6WxSbIA'' exampleState) ''client_secret'' = None"
proof -
  have body: "buildTokenRequestBody exampleConfig ''SplxlOBeZQQYbYS6WxSbIA'' exampleState =
     [(''grant_type'', ''authorization_code''), (''code'', ''SplxlOBeZQQYbYS6WxSbIA''),
      (''redirect_uri'', ''https://app/cb''), (''client_id'', ''c1''),
      (''client_secret'', ''s3cret''),
      (''code_verifier'', ''dBjftJeZ4CVP-mB92K27uhbUJU1p1r_wW1gFWFOEjXk'')]"
    by (simp add: exampleConfig_def exampleState_def examplePkce_def
        buildTokenRequestBody_def objectAssign_def pkceToTokenParams_def)
  have on: "map_of (buildTokenRequestBody exampleConfig ''SplxlOBeZQQYbYS6WxSbIA'' exampleState)
     ''code_verifier'' = Some (codeVerifier (statePkce exampleState))"
    using buildTokenRequestBody_fields [of exampleConfig "''SplxlOBeZQQYbYS6WxSbIA''" exampleState]
    by (simp add: exampleConfig_def)
  have off: "map_of (buildTokenRequestBody (exampleConfig\<lparr>clientSecret := [], pkce := Some False\<rparr>)
             ''SplxlOBeZQQYbYS6WxSbIA'' exampleState) ''code_verifier'' = None \<and>
   map_of (buildTokenRequestBody (exampleConfig\<lparr>clientSecret := [], pkce := Some False\<rparr>)
             ''SplxlOBeZQQYbYS6WxSbIA'' exampleState) ''client_secret'' = None"
    using buildTokenRequestBody_fields
      [of "exampleConfig\<lparr>clientSecret := [], pkce := Some False\<rparr>" "''SplxlOBeZQQYbYS6WxSbIA''"
          exampleState]
    by simp
  show ?thesis
    using body on off by blast
qed

section \<open>Properties of the middleware\<close>

lemma jsSplit_no_separator: "c \<notin> set s \<Longrightarrow> jsSplit c s = [s]"
  by (induction s) auto

lemma jsSplit_at_separator: "c \<notin> set a \<Longrightarrow> jsSplit c (a @ c # b) = a # jsSplit c b"
  by (induction a) auto

lemma toLowerCase_bearer:
  assumes "toLowerCase scheme = ''bearer''"
  shows "CHR '' '' \<notin> set scheme" and "scheme \<noteq> []"
proof -
  show "scheme \<noteq> []"
    using assms by (auto simp: toLowerCase_def)
  show "CHR '' '' \<notin> set scheme"
  proof
    assume "CHR '' '' \<in> set scheme"
    then have "lowerChar (CHR '' '') \<in> set (toLowerCase scheme)"
      by (simp add: toLowerCase_def)
    then show False
      unfolding assms by (simp add: lowerChar_def)
  qed
qed

lemma extractToken_falls_through:
  "extractBearerToken (authorization req) = None \<or>
   extractBearerToken (authorization req) = Some [] \<Longrightarrow>
   extractToken req = queryFallback req"
  by (auto simp: extractToken_def queryFallback_def)

text \<open>
  Claim C10. \<open>extractBearerToken\<close> accepts the scheme in any letter case: a header made of
  a word that is "bearer" in lower case, one space and a token without a space yields the
  token, so "bearer x" and "BEARER x" yield "x". A header that does not split at spaces
  into exactly two parts yields nothing, so "Bearer" alone and "Bearer a b" yield nothing.
  In these cases, and for the header "Bearer " with its empty token, \<open>extractToken\<close> falls
  through to the query parameter \<open>access_token\<close>.
\<close>

theorem extractBearerToken_scheme_and_shape:
  "(\<forall>scheme tok. toLowerCase scheme = ''bearer'' \<and> CHR '' '' \<notin> set tok \<longrightarrow>
      extractBearerToken (Some (scheme @ '' '' @ tok)) = Some tok) \<and>
   extractBearerToken (Some ''bearer x'') = Some ''x'' \<and>
   extractBearerToken (Some ''BEARER x'') = Some ''x'' \<and>
   (\<forall>h. length (jsSplit (CHR '' '') h) \<noteq> 2 \<longrightarrow> extractBearerToken (Some h) = None) \<and>
   extractBearerToken (Some ''Bearer'') = None \<and>
   extractBearerToken (Some ''Bearer a b'') = None \<and>
   (\<forall>req h. authorization req = Some h \<and>
            (length (jsSplit (CHR '' '') h) \<noteq> 2 \<or> h = ''Bearer '') \<longrightarrow>
      extractToken req = queryFallback req) \<and>
   (\<forall>req. authorization req \<in> {Some ''Bearer'', Some ''Bearer a b'', Some ''Bearer ''} \<longrightarrow>
      extractToken req =
        (case query_access_token req of Some (QueryString q) \<Rightarrow> Some q | _ \<Rightarrow> None))"
proof -
  have ci: "extractBearerToken (Some (scheme @ '' '' @ tok)) = Some tok"
    if "toLowerCase scheme = ''bearer''" and "CHR '' '' \<notin> set tok" for scheme tok
  proof -
    have "jsSplit (CHR '' '') (scheme @ CHR '' '' # tok) = [scheme, tok]"
      using toLowerCase_bearer(1) [OF that(1)] that(2)
      by (simp add: jsSplit_at_separator jsSplit_no_separator)
    then show ?thesis
      using that(1) toLowerCase_bearer(2) [OF that(1)]
      by (simp add: extractBearerToken_def)
  qed
  have shape: "extractBearerToken (Some h) = None" if "length (jsSplit (CHR '' '') h) \<noteq> 2" for h
    using that by (auto simp: extractBearerToken_def split: list.splits)
  have examples:
    "extractBearerToken (Some ''bearer x'') = Some ''x''"
    "extractBearerToken (Some ''BEARER x'') = Some ''x''"
    "extractBearerToken (Some ''Bearer'') = None"
    "extractBearerToken (Some ''Bearer a b'') = None"
    "extractBearerToken (Some ''Bearer '') = Some ''''"
    by (simp_all add: extractBearerToken_def toLowerCase_def lowerChar_def)
  have through: "extractToken req = queryFallback req"
    if "authorization req = Some h" and "length (jsSplit (CHR '' '') h) \<noteq> 2 \<or> h = ''Bearer ''"
    for req h
    using that shape [of h] examples(5) extractToken_falls_through [of req] by auto
  have through': "extractToken req =
        (case query_access_token req of Some (QueryString q) \<Rightarrow> Some q | _ \<Rightarrow> None)"
    if "authorization req \<in> {Some ''Bearer'', Some ''Bearer a b'', Some ''Bearer ''}" for req
    using that examples(3,4,5) extractToken_falls_through [of req]
    by (auto simp: queryFallback_def)
  show ?thesis
    using ci shape examples(1,2,3,4) through through' by blast
qed

text \<open>
  The theorem at the scheme "BeArEr" with the token "abc123", at the header "Token",
  which has one part, and at a request whose header is "Bearer " and whose query has
  \<open>access_token=fromquery\<close>.
\<close>

theorem extractBearerToken_scheme_and_shape_witness:
  "toLowerCase ''BeArEr'' = ''bearer'' \<and>
   CHR '' '' \<notin> set ''abc123'' \<and>
   extractBearerToken (Some ''BeArEr abc123'') = Some ''abc123'' \<and>
   length (jsSplit (CHR '' '') ''Token'') = 1 \<and>
   extractBearerToken (Some ''Token'') = None \<and>
   extractToken (exampleRequest\<lparr>authorization := Some ''Bearer '',
                                 query_access_token := Some (QueryString ''fromquery'')\<rparr>) =
     Some ''fromquery''"
proof -
  have lower: "toLowerCase ''BeArEr'' = ''bearer''"
    by (simp add: toLowerCase_def lowerChar_def)
  have nospace: "CHR '' '' \<notin> set ''abc123''"
    by simp
  have parts: "length (jsSplit (CHR '' '') ''Token'') = 1"
    by simp
  have "extractBearerToken (Some (''BeArEr'' @ '' '' @ ''abc123'')) = Some ''abc123''"
    using lower nospace extractBearerToken_scheme_and_shape by blast
  then have accepted: "extractBearerToken (Some ''BeArEr abc123'') = Some ''abc123''"
    by simp
  have rejected: "extractBearerToken (Some ''Token'') = None"
    using parts extractBearerToken_scheme_and_shape by simp
  have "extractToken (exampleRequest\<lparr>authorization := Some ''Bearer '',
                                 query_access_token := Some (QueryString ''fromquery'')\<rparr>) =
     queryFallback (exampleRequest\<lparr>authorization := Some ''Bearer '',
                                 query_access_token := Some (QueryString ''fromquery'')\<rparr>)"
    using extractBearerToken_scheme_and_shape by simp
  then have fallback: "extractToken (exampleRequest\<lparr>authorization := Some ''Bearer '',
                                 query_access_token := Some (QueryString ''fromquery'')\<rparr>) =
     Some ''fromquery''"
    by (simp add: queryFallback_def)
  show ?thesis
    using lower nospace parts accepted rejected fallback by blast
qed

lemma join_mentions: "x \<in> set xs \<Longrightarrow> \<exists>a b. join sep xs = a @ x @ b"
proof (induction sep xs rule: join.induct)
  case (1 sep)
  then show ?case by simp
next
  case (2 sep y)
  then have "join sep [y] = [] @ x @ []" by simp
  then show ?case by blast
next
  case (3 sep y z zs)
  show ?case
  proof (cases "x = y")
    case True
    then have "join sep (y # z # zs) = [] @ x @ (sep @ join sep (z # zs))" by simp
    then show ?thesis by blast
  next
    case False
    with 3 obtain a b where "join sep (z # zs) = a @ x @ b" by auto
    then have "join sep (y # z # zs) = (y @ sep @ a) @ x @ b" by simp
    then show ?thesis by blast
  qed
qed

text \<open>
  Claim C5, as the code has it. \<open>createAuthMiddleware\<close> responds 401 "unauthorized" when
  no token is extracted or the extracted token is the empty string; in particular when
  the \<open>Authorization\<close> header yields no Bearer token and there is no query parameter
  \<open>access_token\<close>. For a non-empty extracted token that the validator rejects it responds
  401 "invalid_token" with the validator's message, and for one the validator accepts it
  attaches the validated token to the request and calls \<open>next\<close>. \<open>requireScopes\<close> responds
  401 "unauthorized" when no token is attached; otherwise, when required scopes are not
  among the token's scopes, it responds 403 "insufficient_scope" with a description
  that lists those scopes in order, so each of them occurs in it; and when none is
  missing it calls \<open>next\<close> with the request as it is.
\<close>

theorem auth_middleware_boundary:
  "((extractToken req = None \<or> extractToken req = Some []) \<longrightarrow>
      createAuthMiddleware validator req =
        Responded 401 [(''error'', ''unauthorized''),
                       (''error_description'', ''Missing authentication token'')]) \<and>
   (extractBearerToken (authorization req) = None \<and> query_access_token req = None \<longrightarrow>
      createAuthMiddleware validator req =
        Responded 401 [(''error'', ''unauthorized''),
                       (''error_description'', ''Missing authentication token'')]) \<and>
   (\<forall>t e. extractToken req = Some t \<and> t \<noteq> [] \<and> validator t = Inl e \<longrightarrow>
      createAuthMiddleware validator req =
        Responded 401 [(''error'', ''invalid_token''), (''error_description'', message e)]) \<and>
   (\<forall>t validated. extractToken req = Some t \<and> t \<noteq> [] \<and> validator t = Inr validated \<longrightarrow>
      createAuthMiddleware validator req = Next (req\<lparr>token := Some validated\<rparr>)) \<and>
   (token req = None \<longrightarrow>
      requireScopes requiredScopes req =
        Responded 401 [(''error'', ''unauthorized''),
                       (''error_description'', ''Authentication required'')]) \<and>
   (\<forall>tok. token req = Some tok \<longrightarrow>
      (let missing = filter (\<lambda>sc. sc \<notin> set (getTokenScopes tok)) requiredScopes in
       if missing = [] then requireScopes requiredScopes req = Next req
       else requireScopes requiredScopes req =
              Responded 403 [(''error'', ''insufficient_scope''),
                             (''error_description'',
                              ''Missing required scopes: '' @ join '', '' missing)] \<and>
            (\<forall>sc \<in> set requiredScopes. sc \<notin> set (getTokenScopes tok) \<longrightarrow>
               (\<exists>a b. ''Missing required scopes: '' @ join '', '' missing = a @ sc @ b))))"
proof -
  have mention: "\<exists>a b. ''Missing required scopes: '' @ join '', '' missing = a @ sc @ b"
    if "sc \<in> set missing" for sc missing
  proof -
    from join_mentions [OF that, of "'', ''"] obtain a b where "join '', '' missing = a @ sc @ b"
      by blast
    then have "''Missing required scopes: '' @ join '', '' missing =
                 (''Missing required scopes: '' @ a) @ sc @ b"
      by simp
    then show ?thesis by blast
  qed
  have scopes: "\<forall>tok. token req = Some tok \<longrightarrow>
      (let missing = filter (\<lambda>sc. sc \<notin> set (getTokenScopes tok)) requiredScopes in
       if missing = [] then requireScopes requiredScopes req = Next req
       else requireScopes requiredScopes req =
              Responded 403 [(''error'', ''insufficient_scope''),
                             (''error_description'',
                              ''Missing required scopes: '' @ join '', '' missing)] \<and>
            (\<forall>sc \<in> set requiredScopes. sc \<notin> set (getTokenScopes tok) \<longrightarrow>
               (\<exists>a b. ''Missing required scopes: '' @ join '', '' missing = a @ sc @ b)))"
  proof (intro allI impI)
    fix tok assume tok: "token req = Some tok"
    define missing where "missing = filter (\<lambda>sc. sc \<notin> set (getTokenScopes tok)) requiredScopes"
    have run: "requireScopes requiredScopes req =
       (if missing = [] then Next req
        else Responded 403 [(''error'', ''insufficient_scope''),
                             (''error_description'',
                              ''Missing required scopes: '' @ join '', '' missing)])"
      using tok by (simp add: requireScopes_def hasScope_def missing_def Let_def)
    have "\<exists>a b. ''Missing required scopes: '' @ join '', '' missing = a @ sc @ b"
      if "sc \<in> set requiredScopes" "sc \<notin> set (getTokenScopes tok)" for sc
      using mention [of sc missing] that by (simp add: missing_def)
    then show "let missing = filter (\<lambda>sc. sc \<notin> set (getTokenScopes tok)) requiredScopes in
       if missing = [] then requireScopes requiredScopes req = Next req
       else requireScopes requiredScopes req =
              Responded 403 [(''error'', ''insufficient_scope''),
                             (''error_description'',
                              ''Missing required scopes: '' @ join '', '' missing)] \<and>
            (\<forall>sc \<in> set requiredScopes. sc \<notin> set (getTokenScopes tok) \<longrightarrow>
               (\<exists>a b. ''Missing required scopes: '' @ join '', '' missing = a @ sc @ b))"
      using run unfolding Let_def missing_def [symmetric] by simp
  qed
  have auth1: "(extractToken req = None \<or> extractToken req = Some []) \<longrightarrow>
      createAuthMiddleware validator req =
        Responded 401 [(''error'', ''unauthorized''),
                       (''error_description'', ''Missing authentication token'')]"
    by (auto simp: createAuthMiddleware_def)
  have auth1': "extractBearerToken (authorization req) = None \<and> query_access_token req = None \<longrightarrow>
      createAuthMiddleware validator req =
        Responded 401 [(''error'', ''unauthorized''),
                       (''error_description'', ''Missing authentication token'')]"
    by (simp add: createAuthMiddleware_def extractToken_def)
  have auth2: "\<forall>t e. extractToken req = Some t \<and> t \<noteq> [] \<and> validator t = Inl e \<longrightarrow>
      createAuthMiddleware validator req =
        Responded 401 [(''error'', ''invalid_token''), (''error_description'', message e)]"
    by (simp add: createAuthMiddleware_def)
  have auth3: "\<forall>t validated. extractToken req = Some t \<and> t \<noteq> [] \<and> validator t = Inr validated \<longrightarrow>
      createAuthMiddleware validator req = Next (req\<lparr>token := Some validated\<rparr>)"
    by (simp add: createAuthMiddleware_def)
  have sc0: "token req = None \<longrightarrow>
      requireScopes requiredScopes req =
        Responded 401 [(''error'', ''unauthorized''),
                       (''error_description'', ''Authentication required'')]"
    by (simp add: requireScopes_def)
  show ?thesis
    using auth1 auth1' auth2 auth3 sc0 scopes by blast
qed

text \<open>
  The theorem at the specification's examples, with \<open>createSimpleValidator\<close>: a request
  without credentials; the header "Basic xyz"; the token "short", which the validator
  rejects; the token "shorttoken", which it accepts; and \<open>requireScopes("read", "write")\<close>
  on a token whose scope is "read".
\<close>

theorem auth_middleware_boundary_witness:
  "createAuthMiddleware createSimpleValidator exampleRequest =
     Responded 401 [(''error'', ''unauthorized''),
                    (''error_description'', ''Missing authentication token'')] \<and>
   createAuthMiddleware createSimpleValidator (exampleRequest\<lparr>authorization := Some ''Basic xyz''\<rparr>) =
     Responded 401 [(''error'', ''unauthorized''),
                    (''error_description'', ''Missing authentication token'')] \<and>
   createAuthMiddleware createSimpleValidator (exampleRequest\<lparr>authorization := Some ''Bearer short''\<rparr>) =
     Responded 401 [(''error'', ''invalid_token''),
                    (''error_description'', ''Invalid token format'')] \<and>
   createAuthMiddleware createSimpleValidator
       (exampleRequest\<lparr>authorization := Some ''Bearer shorttoken''\<rparr>) =
     Next (exampleRequest\<lparr>authorization := Some ''Bearer shorttoken'',
             token := Some \<lparr> accessToken = ''shorttoken'', tokenType = ''Bearer'',
                              expiresAt = None, refreshToken = None, scope = None \<rparr>\<rparr>) \<and>
   requireScopes [''read'', ''write'']
       (exampleRequest\<lparr>token := Some (exampleStoredToken\<lparr>scope := Some ''read''\<rparr>)\<rparr>) =
     Responded 403 [(''error'', ''insufficient_scope''),
                    (''error_description'', ''Missing required scopes: write'')] \<and>
   requireScopes [''read''] (exampleRequest\<lparr>token := Some (exampleStoredToken\<lparr>scope := Some ''read''\<rparr>)\<rparr>) =
     Next (exampleRequest\<lparr>token := Some (exampleStoredToken\<lparr>scope := Some ''read''\<rparr>)\<rparr>) \<and>
   requireScopes [''read''] exampleRequest =
     Responded 401 [(''error'', ''unauthorized''),
                    (''error_description'', ''Authentication required'')]"
proof -
  have none: "extractToken exampleRequest = None"
    by (simp add: extractToken_def extractBearerToken_def exampleRequest_def)
  have basic: "extractBearerToken (authorization (exampleRequest\<lparr>authorization := Some ''Basic xyz''\<rparr>)) = None"
      "query_access_token (exampleRequest\<lparr>authorization := Some ''Basic xyz''\<rparr>) = None"
    by (simp_all add: extractBearerToken_def toLowerCase_def lowerChar_def exampleRequest_def)
  have short: "extractToken (exampleRequest\<lparr>authorization := Some ''Bearer short''\<rparr>) = Some ''short''"
      "createSimpleValidator ''short'' = Inl (OAuthError ''Invalid token format'' None None)"
    by (simp_all add: extractToken_def extractBearerToken_def toLowerCase_def lowerChar_def
        createSimpleValidator_def oauthError_def)
  have long: "extractToken (exampleRequest\<lparr>authorization := Some ''Bearer shorttoken''\<rparr>) =
        Some ''shorttoken''"
      "createSimpleValidator ''shorttoken'' =
        Inr \<lparr> accessToken = ''shorttoken'', tokenType = ''Bearer'',
              expiresAt = None, refreshToken = None, scope = None \<rparr>"
    by (simp_all add: extractToken_def extractBearerToken_def toLowerCase_def lowerChar_def
        createSimpleValidator_def)
  have scopes: "getTokenScopes (exampleStoredToken\<lparr>scope := Some ''read''\<rparr>) = [''read'']"
    by (simp add: getTokenScopes_def)
  have r1: "createAuthMiddleware createSimpleValidator exampleRequest =
     Responded 401 [(''error'', ''unauthorized''),
                    (''error_description'', ''Missing authentication token'')]"
    using none auth_middleware_boundary [of exampleRequest createSimpleValidator "[]"] by blast
  have r2: "createAuthMiddleware createSimpleValidator (exampleRequest\<lparr>authorization := Some ''Basic xyz''\<rparr>) =
     Responded 401 [(''error'', ''unauthorized''),
                    (''error_description'', ''Missing authentication token'')]"
    using basic
      auth_middleware_boundary
        [of "exampleRequest\<lparr>authorization := Some ''Basic xyz''\<rparr>" createSimpleValidator "[]"]
    by blast
  have r3: "createAuthMiddleware createSimpleValidator (exampleRequest\<lparr>authorization := Some ''Bearer short''\<rparr>) =
     Responded 401 [(''error'', ''invalid_token''),
                    (''error_description'', ''Invalid token format'')]"
    using short
      auth_middleware_boundary
        [of "exampleRequest\<lparr>authorization := Some ''Bearer short''\<rparr>" createSimpleValidator "[]"]
    by force
  have r4: "createAuthMiddleware createSimpleValidator
       (exampleRequest\<lparr>authorization := Some ''Bearer shorttoken''\<rparr>) =
     Next (exampleRequest\<lparr>authorization := Some ''Bearer shorttoken'',
             token := Some \<lparr> accessToken = ''shorttoken'', tokenType = ''Bearer'',
                              expiresAt = None, refreshToken = None, scope = None \<rparr>\<rparr>)"
    using long
      auth_middleware_boundary
        [of "exampleRequest\<lparr>authorization := Some ''Bearer shorttoken''\<rparr>" createSimpleValidator "[]"]
    by force
  have r5: "requireScopes [''read'', ''write'']
       (exampleRequest\<lparr>token := Some (exampleStoredToken\<lparr>scope := Some ''read''\<rparr>)\<rparr>) =
     Responded 403 [(''error'', ''insufficient_scope''),
                    (''error_description'', ''Missing required scopes: write'')]"
    using scopes
      auth_middleware_boundary
        [of "exampleRequest\<lparr>token := Some (exampleStoredToken\<lparr>scope := Some ''read''\<rparr>)\<rparr>"
            createSimpleValidator "[''read'', ''write'']"]
    by simp
  have r6: "requireScopes [''read''] (exampleRequest\<lparr>token := Some (exampleStoredToken\<lparr>scope := Some ''read''\<rparr>)\<rparr>) =
     Next (exampleRequest\<lparr>token := Some (exampleStoredToken\<lparr>scope := Some ''read''\<rparr>)\<rparr>)"
    using scopes
      auth_middleware_boundary
        [of "exampleRequest\<lparr>token := Some (exampleStoredToken\<lparr>scope := Some ''read''\<rparr>)\<rparr>"
            createSimpleValidator "[''read'']"]
    by simp
  have r7: "requireScopes [''read''] exampleRequest =
     Responded 401 [(''error'', ''unauthorized''),
                    (''error_description'', ''Authentication required'')]"
    using auth_middleware_boundary [of exampleRequest createSimpleValidator "[''read'']"]
    by (simp add: exampleRequest_def)
  show ?thesis
    using r1 r2 r3 r4 r5 r6 r7 by blast
qed

text \<open>
  The claim as stated fails for the empty token. A request without a header and with
  the query parameter \<open>access_token=\<close> has the extracted token \<open>""\<close>, which
  \<open>createSimpleValidator\<close> rejects; the middleware never asks the validator and responds
  "unauthorized", not "invalid_token".
\<close>

theorem auth_middleware_empty_token_counterexample:
  "extractToken (exampleRequest\<lparr>query_access_token := Some (QueryString '''')\<rparr>) = Some '''' \<and>
   createSimpleValidator '''' = Inl (OAuthError ''Invalid token format'' None None) \<and>
   createAuthMiddleware createSimpleValidator
       (exampleRequest\<lparr>query_access_token := Some (QueryString '''')\<rparr>) =
     Responded 401 [(''error'', ''unauthorized''),
                    (''error_description'', ''Missing authentication token'')]"
  by (simp add: extractToken_def extractBearerToken_def exampleRequest_def
      createSimpleValidator_def oauthError_def createAuthMiddleware_def)

end
